theory Spec2Isabelle
  imports Main "HOL-Library.Word"
begin

section \<open>Data model of \<^verbatim>\<open>skyline::gpu::Texture\<close>\<close>

text \<open>
  The development follows \<^verbatim>\<open>gpu/texture/texture.cpp\<close>. All objects the methods touch
  (textures, staging buffers, the scheduler's submissions, fence cycles) live in one
  explicit state of type \<open>GPU\<close>; a method takes the address of its object
  (\<open>this\<close>) and the state, and returns an outcome together with the new state.
  Covered are the synchronization in both directions, the layout transition and the
  image copy, with the waits they start with; the constructors, \<^verbatim>\<open>SwapBacking\<close> and
  the texture views are not.
\<close>

type_synonym u8 = "8 word"
type_synonym u32 = "32 word"

text \<open>The values of \<^verbatim>\<open>vk::ImageLayout\<close> (core Vulkan and the presentation layout).\<close>

datatype ImageLayout =
    eUndefined
  | eGeneral
  | eColorAttachmentOptimal
  | eDepthStencilAttachmentOptimal
  | eDepthStencilReadOnlyOptimal
  | eShaderReadOnlyOptimal
  | eTransferSrcOptimal
  | eTransferDstOptimal
  | ePreinitialized
  | ePresentSrcKHR

datatype ImageTiling = eOptimal | eLinear | eDrmFormatModifierEXT

datatype TileMode = Linear | Pitch | Block

datatype PipelineStageFlagBits = eTopOfPipe | eBottomOfPipe | eTransfer

datatype AccessFlagBits = eMemoryRead | eMemoryWrite | eTransferRead | eTransferWrite

record Dimensions =
  width :: u32
  height :: u32
  depth :: u32

text \<open>
  A texture format: the host format it stands for and the image aspect it covers.
  The byte size of an image of a format (\<^verbatim>\<open>format->GetSize\<close>) is declared outside
  \<^verbatim>\<open>texture.cpp\<close> and is a parameter of the model, see \<open>Collaborators\<close>.
\<close>

record Format =
  vkFormat :: nat
  vkAspect :: nat

text \<open>
  The guest descriptor. A mapping is a span of guest memory; the model keeps the bytes
  of each mapping in the descriptor.
\<close>

record GuestTexture =
  mappings :: "u8 list list"
  guestDimensions :: Dimensions
  guestFormat :: Format
  tileMode :: TileMode
  guestLayerCount :: u32

text \<open>
  Modelled from the spec: the declaration of \<^verbatim>\<open>BackingType\<close> is in \<^verbatim>\<open>texture.h\<close>, which is
  not part of the sources at hand. The backing is either absent, or a host image that is
  GPU-local, or a host image that can be mapped on the CPU (\<^verbatim>\<open>memory::Image\<close>, the
  alternative \<^verbatim>\<open>std::holds_alternative<memory::Image>\<close> tests for). An image is named by
  its handle; a mapped image carries the bytes of its mapping.
\<close>

datatype BackingType = Absent | GpuLocal nat | CpuMapped nat "u8 list"

text \<open>
  The fields of \<^verbatim>\<open>Texture\<close>. \<open>cycle\<close> is the weak reference to the pending fence cycle:
  \<open>None\<close> when it is empty or expired (\<^verbatim>\<open>cycle.lock()\<close> is null), \<open>Some c\<close> when it
  names the live cycle \<open>c\<close>. \<open>views\<close> is the view cache, a list of pairs of a view
  description and a view handle.
\<close>

record Texture =
  backing :: BackingType
  layout :: ImageLayout
  guest :: "GuestTexture option"
  dimensions :: Dimensions
  format :: Format
  tiling :: ImageTiling
  mipLevels :: u32
  layerCount :: u32
  sampleCount :: nat
  cycle :: "nat option"
  views :: "(nat \<times> nat) list"

subsection \<open>Recorded commands\<close>

record ImageSubresourceRange =
  aspectMask :: nat
  baseMipLevel :: u32
  levelCount :: u32
  baseArrayLayer :: u32
  rangeLayerCount :: u32

record ImageSubresourceLayers =
  layersAspectMask :: nat
  mipLevel :: u32
  layersBaseArrayLayer :: u32
  layersLayerCount :: u32

text \<open>
  \<^verbatim>\<open>vk::ImageMemoryBarrier\<close>; both queue family indices are
  \<^verbatim>\<open>VK_QUEUE_FAMILY_IGNORED\<close> in every barrier of this file and are left out.
  An image handle is optional: \<open>None\<close> is the null handle.
\<close>

record ImageMemoryBarrier =
  barrierImage :: "nat option"
  srcAccessMask :: "AccessFlagBits set"
  dstAccessMask :: "AccessFlagBits set"
  oldLayout :: ImageLayout
  newLayout :: ImageLayout
  subresourceRange :: ImageSubresourceRange

record BufferImageCopy =
  imageExtent :: Dimensions
  imageSubresource :: ImageSubresourceLayers

record ImageCopy =
  srcSubresource :: ImageSubresourceLayers
  dstSubresource :: ImageSubresourceLayers
  extent :: Dimensions

text \<open>The calls made on a \<^verbatim>\<open>vk::raii::CommandBuffer\<close>, with their arguments in order.\<close>

datatype command =
    pipelineBarrier PipelineStageFlagBits PipelineStageFlagBits ImageMemoryBarrier
  | copyBufferToImage nat "nat option" ImageLayout BufferImageCopy
  | copyImageToBuffer "nat option" ImageLayout nat BufferImageCopy
  | copyImage "nat option" ImageLayout "nat option" ImageLayout ImageCopy

definition VK_REMAINING_MIP_LEVELS :: u32 where
  "VK_REMAINING_MIP_LEVELS = 0xFFFFFFFF"

definition VK_REMAINING_ARRAY_LAYERS :: u32 where
  "VK_REMAINING_ARRAY_LAYERS = 0xFFFFFFFF"

subsection \<open>The state\<close>

text \<open>
  Objects attached to a fence cycle: a staging buffer, a texture, or a
  \<^verbatim>\<open>TextureBufferCopy\<close> guard of a texture with its optional staging buffer.
\<close>

datatype attachment =
    AttachedStagingBuffer nat
  | AttachedTexture nat
  | AttachedTextureBufferCopy nat "nat option"

text \<open>
  \<open>textures\<close> is the heap of texture objects by address, \<open>stagingBuffers\<close> the staging
  buffers allocated so far (a buffer is named by its index), \<open>submitted\<close> the units of
  recorded work given to the scheduler, oldest first, \<open>attachedObjects\<close> the objects
  attached to each fence cycle, and \<open>waited\<close> the fence cycles that have been waited
  on, oldest first.
\<close>

record GPU =
  textures :: "nat \<Rightarrow> Texture"
  stagingBuffers :: "u8 list list"
  submitted :: "command list list"
  attachedObjects :: "nat \<Rightarrow> attachment list"
  waited :: "nat list"

text \<open>The exceptions thrown in \<^verbatim>\<open>texture.cpp\<close>, one constructor per message.\<close>

datatype exception =
    HostSyncRequiresGuest
    \<comment> \<open>Synchronization of host textures requires a valid guest texture to synchronize from\<close>
  | DimensionsDiffer
    \<comment> \<open>Guest and host dimensions being different is not supported currently\<close>
  | MultipleMappings nat
    \<comment> \<open>Synchronizing textures across \{\} mappings is not supported\<close>
  | GuestToHostNotImplemented ImageTiling
    \<comment> \<open>Guest -> Host synchronization of images tiled as '\{\}' isn't implemented\<close>
  | GuestSyncRequiresGuest
    \<comment> \<open>Synchronization of guest textures requires a valid guest texture to synchronize to\<close>
  | HostToGuestNotImplemented ImageTiling
    \<comment> \<open>Host -> Guest synchronization of images tiled as '\{\}' isn't implemented\<close>
  | CopyFromUndefinedLayout
    \<comment> \<open>Cannot copy from image with undefined layout\<close>
  | CopyFromDifferentDimensions
    \<comment> \<open>Cannot copy from image with different dimensions\<close>
  | CopyFromDifferentFormat
    \<comment> \<open>Cannot copy from image with different format\<close>

text \<open>
  How a call ends: it returns a value, it throws, it never returns because it waits for
  a backing that only another thread can attach (\<open>Blocked\<close>), it runs into behaviour
  that C++ leaves undefined (an index or a copy out of range), or the process is
  terminated because an exception leaves a destructor (\<open>Terminated\<close>).
\<close>

datatype 'a outcome = Returned 'a | Threw exception | Blocked | UndefinedBehaviour | Terminated

fun andThen :: "'a outcome \<times> GPU \<Rightarrow> ('a \<Rightarrow> GPU \<Rightarrow> 'b outcome \<times> GPU) \<Rightarrow> 'b outcome \<times> GPU" where
  "andThen (Returned x, g) f = f x g"
| "andThen (Threw e, g) f = (Threw e, g)"
| "andThen (Blocked, g) f = (Blocked, g)"
| "andThen (UndefinedBehaviour, g) f = (UndefinedBehaviour, g)"
| "andThen (Terminated, g) f = (Terminated, g)"

subsection \<open>Collaborators\<close>

text \<open>
  The functions \<^verbatim>\<open>texture.cpp\<close> calls but does not define are parameters:
  \<open>GetSize\<close> is \<^verbatim>\<open>format->GetSize(dimensions)\<close>; the four tiling conversions of
  \<^verbatim>\<open>copy.h\<close> take the guest descriptor, the bytes they read and the previous bytes of
  the buffer they write, and give the new bytes of the buffer they write.
\<close>

record Collaborators =
  GetSize :: "Format \<Rightarrow> Dimensions \<Rightarrow> nat"
  CopyBlockLinearToLinear :: "GuestTexture \<Rightarrow> u8 list \<Rightarrow> u8 list \<Rightarrow> u8 list"
  CopyPitchLinearToLinear :: "GuestTexture \<Rightarrow> u8 list \<Rightarrow> u8 list \<Rightarrow> u8 list"
  CopyLinearToBlockLinear :: "GuestTexture \<Rightarrow> u8 list \<Rightarrow> u8 list \<Rightarrow> u8 list"
  CopyLinearToPitchLinear :: "GuestTexture \<Rightarrow> u8 list \<Rightarrow> u8 list \<Rightarrow> u8 list"

text \<open>
  \<^verbatim>\<open>std::memcpy(dst, src, n)\<close>: the first \<open>n\<close> bytes of \<open>dst\<close> become those of
  \<open>src\<close>. Copying beyond the end of either buffer is undefined: \<open>None\<close>.
\<close>

definition memcpy :: "u8 list \<Rightarrow> u8 list \<Rightarrow> nat \<Rightarrow> u8 list option" where
  "memcpy dst src n =
     (if n \<le> length dst \<and> n \<le> length src then Some (take n src @ drop n dst) else None)"

text \<open>
  Modelled from the spec: the allocator is not part of the sources at hand.
  \<^verbatim>\<open>AllocateStagingBuffer(size)\<close> gives a fresh buffer of \<open>size\<close> bytes (zeroed here).
\<close>

definition AllocateStagingBuffer :: "nat \<Rightarrow> GPU \<Rightarrow> nat \<times> GPU" where
  "AllocateStagingBuffer sz g =
     (length (stagingBuffers g), g\<lparr>stagingBuffers := stagingBuffers g @ [replicate sz 0]\<rparr>)"

text \<open>
  Modelled from the spec: the command scheduler is not part of the sources at hand.
  \<^verbatim>\<open>Submit(recorded-work)\<close> runs the recording function on a fresh command buffer,
  hands the recorded unit to the GPU and returns a new fence cycle. The cycle of the
  \<open>n\<close>-th submission is named \<open>n\<close>.
\<close>

definition Submit :: "(command list \<Rightarrow> GPU \<Rightarrow> command list \<times> GPU) \<Rightarrow> GPU \<Rightarrow> nat \<times> GPU" where
  "Submit record g =
     (case record [] g of
        (commandBuffer, g') \<Rightarrow>
          (length (submitted g'), g'\<lparr>submitted := submitted g' @ [commandBuffer]\<rparr>))"

text \<open>
  Modelled from the spec: the fence cycle is not part of the sources at hand.
  \<^verbatim>\<open>AttachObject(s)\<close> keeps the objects until the cycle completes; \<^verbatim>\<open>Wait()\<close> blocks
  until the submission completes, which the model records in \<open>waited\<close>.
\<close>

definition AttachObjects :: "nat \<Rightarrow> attachment list \<Rightarrow> GPU \<Rightarrow> GPU" where
  "AttachObjects c objs g = g\<lparr>attachedObjects := (attachedObjects g)(c := attachedObjects g c @ objs)\<rparr>"

definition Wait :: "nat \<Rightarrow> GPU \<Rightarrow> GPU" where
  "Wait c g = g\<lparr>waited := waited g @ [c]\<rparr>"

subsection \<open>Barriers and copy regions\<close>

text \<open>The range of a barrier over the whole image: every mip level and every layer.\<close>

definition wholeImage :: "Texture \<Rightarrow> ImageSubresourceRange" where
  "wholeImage t =
     \<lparr>aspectMask = vkAspect (format t), baseMipLevel = 0, levelCount = mipLevels t,
      baseArrayLayer = 0, rangeLayerCount = layerCount t\<rparr>"

definition wholeImageCopy :: "Texture \<Rightarrow> BufferImageCopy" where
  "wholeImageCopy t =
     \<lparr>imageExtent = dimensions t,
      imageSubresource =
        \<lparr>layersAspectMask = vkAspect (format t), mipLevel = 0, layersBaseArrayLayer = 0,
         layersLayerCount = layerCount t\<rparr>\<rparr>"

text \<open>
  The four barriers around a transfer, as \<^verbatim>\<open>CopyFromStagingBuffer\<close>,
  \<^verbatim>\<open>CopyIntoStagingBuffer\<close> and \<^verbatim>\<open>CopyFrom\<close> write them: into the transfer
  layout from layout \<open>l\<close> before the copy, and back to \<open>l\<close> after it.
\<close>

definition toTransferDst :: "nat option \<Rightarrow> ImageLayout \<Rightarrow> ImageSubresourceRange \<Rightarrow> command" where
  "toTransferDst vkImage l subresource =
     pipelineBarrier (if l \<noteq> eUndefined then eTopOfPipe else eBottomOfPipe) eTransfer
       \<lparr>barrierImage = vkImage,
        srcAccessMask = {eMemoryRead, eMemoryWrite},
        dstAccessMask = {eTransferWrite},
        oldLayout = l,
        newLayout = eTransferDstOptimal,
        subresourceRange = subresource\<rparr>"

definition fromTransferDst :: "nat option \<Rightarrow> ImageLayout \<Rightarrow> ImageSubresourceRange \<Rightarrow> command" where
  "fromTransferDst vkImage l subresource =
     pipelineBarrier eTransfer eTransfer
       \<lparr>barrierImage = vkImage,
        srcAccessMask = {eTransferWrite},
        dstAccessMask = {eMemoryRead},
        oldLayout = eTransferDstOptimal,
        newLayout = l,
        subresourceRange = subresource\<rparr>"

definition toTransferSrc :: "PipelineStageFlagBits \<Rightarrow> nat option \<Rightarrow> ImageLayout \<Rightarrow> ImageSubresourceRange \<Rightarrow> command" where
  "toTransferSrc srcStage vkImage l subresource =
     pipelineBarrier srcStage eTransfer
       \<lparr>barrierImage = vkImage,
        srcAccessMask = {eMemoryRead, eMemoryWrite},
        dstAccessMask = {eTransferRead},
        oldLayout = l,
        newLayout = eTransferSrcOptimal,
        subresourceRange = subresource\<rparr>"

definition fromTransferSrc :: "nat option \<Rightarrow> ImageLayout \<Rightarrow> ImageSubresourceRange \<Rightarrow> command" where
  "fromTransferSrc vkImage l subresource =
     pipelineBarrier eTransfer eTransfer
       \<lparr>barrierImage = vkImage,
        srcAccessMask = {eTransferRead},
        dstAccessMask = {eMemoryWrite},
        oldLayout = eTransferSrcOptimal,
        newLayout = l,
        subresourceRange = subresource\<rparr>"

section \<open>The methods of \<^verbatim>\<open>Texture\<close>\<close>

definition updateTexture :: "nat \<Rightarrow> (Texture \<Rightarrow> Texture) \<Rightarrow> GPU \<Rightarrow> GPU" where
  "updateTexture this f g = g\<lparr>textures := (textures g)(this := f (textures g this))\<rparr>"

text \<open>\<^verbatim>\<open>GetBacking()\<close>: the handle of the backing image, null when the backing is absent.\<close>

definition GetBacking :: "Texture \<Rightarrow> nat option" where
  "GetBacking t = (case backing t of Absent \<Rightarrow> None | GpuLocal h \<Rightarrow> Some h | CpuMapped h d \<Rightarrow> Some h)"

text \<open>\<^verbatim>\<open>std::holds_alternative<memory::Image>(backing)\<close>\<close>

definition holdsMemoryImage :: "BackingType \<Rightarrow> bool" where
  "holdsMemoryImage b = (case b of CpuMapped h d \<Rightarrow> True | _ \<Rightarrow> False)"

text \<open>
  \<^verbatim>\<open>WaitOnBacking\<close>: returns \<open>False\<close> at once when the backing is present. Otherwise
  it waits on \<^verbatim>\<open>backingCondition\<close>, which only \<^verbatim>\<open>SwapBacking\<close> on another thread
  notifies: the call does not return in this model.
\<close>

definition WaitOnBacking :: "nat \<Rightarrow> GPU \<Rightarrow> bool outcome \<times> GPU" where
  "WaitOnBacking this g =
     (if GetBacking (textures g this) \<noteq> None then (Returned False, g) else (Blocked, g))"

definition WaitOnFence :: "nat \<Rightarrow> GPU \<Rightarrow> GPU" where
  "WaitOnFence this g =
     (case cycle (textures g this) of
        Some lCycle \<Rightarrow> updateTexture this (\<lambda>t. t\<lparr>cycle := None\<rparr>) (Wait lCycle g)
      | None \<Rightarrow> g)"

definition TransitionLayoutBarrier :: "Texture \<Rightarrow> ImageLayout \<Rightarrow> command" where
  "TransitionLayoutBarrier t pLayout =
     pipelineBarrier (if layout t \<noteq> eUndefined then eTopOfPipe else eBottomOfPipe) eBottomOfPipe
       \<lparr>barrierImage = GetBacking t,
        srcAccessMask = {eMemoryWrite},
        dstAccessMask = {eMemoryRead},
        oldLayout = layout t,
        newLayout = pLayout,
        subresourceRange = wholeImage t\<rparr>"

definition TransitionLayout :: "nat \<Rightarrow> ImageLayout \<Rightarrow> GPU \<Rightarrow> unit outcome \<times> GPU" where
  "TransitionLayout this pLayout g =
     andThen (WaitOnBacking this g) (\<lambda>_ g.
       let g = WaitOnFence this g in
       if layout (textures g this) \<noteq> pLayout then
         (case Submit (\<lambda>commandBuffer g.
                  (commandBuffer @ [TransitionLayoutBarrier (textures g this) pLayout], g)) g of
            (lCycle, g) \<Rightarrow>
              (Returned (), updateTexture this (\<lambda>t. t\<lparr>cycle := Some lCycle, layout := pLayout\<rparr>) g))
       else (Returned (), g))"


subsection \<open>Copies between the image and a staging buffer\<close>

definition CopyFromStagingBuffer :: "nat \<Rightarrow> nat \<Rightarrow> command list \<Rightarrow> GPU \<Rightarrow> command list \<times> GPU" where
  "CopyFromStagingBuffer this stagingBuffer commandBuffer g =
     (let image = GetBacking (textures g this);
          (commandBuffer, g) =
            (if layout (textures g this) \<noteq> eTransferDstOptimal then
               (commandBuffer @
                  [toTransferDst image (layout (textures g this)) (wholeImage (textures g this))],
                if layout (textures g this) = eUndefined
                then updateTexture this (\<lambda>t. t\<lparr>layout := eTransferDstOptimal\<rparr>) g
                else g)
             else (commandBuffer, g));
          commandBuffer = commandBuffer @
            [copyBufferToImage stagingBuffer image eTransferDstOptimal (wholeImageCopy (textures g this))]
      in if layout (textures g this) \<noteq> eTransferDstOptimal then
           (commandBuffer @
              [fromTransferDst image (layout (textures g this)) (wholeImage (textures g this))], g)
         else (commandBuffer, g))"

definition CopyIntoStagingBuffer :: "nat \<Rightarrow> nat \<Rightarrow> command list \<Rightarrow> GPU \<Rightarrow> command list \<times> GPU" where
  "CopyIntoStagingBuffer this stagingBuffer commandBuffer g =
     (let image = GetBacking (textures g this);
          (commandBuffer, g) =
            (if layout (textures g this) \<noteq> eTransferSrcOptimal then
               (commandBuffer @
                  [toTransferSrc
                     (if layout (textures g this) \<noteq> eUndefined then eTopOfPipe else eBottomOfPipe)
                     image (layout (textures g this)) (wholeImage (textures g this))],
                if layout (textures g this) = eUndefined
                then updateTexture this (\<lambda>t. t\<lparr>layout := eTransferSrcOptimal\<rparr>) g
                else g)
             else (commandBuffer, g));
          commandBuffer = commandBuffer @
            [copyImageToBuffer image eTransferSrcOptimal stagingBuffer (wholeImageCopy (textures g this))]
      in if layout (textures g this) \<noteq> eTransferSrcOptimal then
           (commandBuffer @
              [fromTransferSrc image (layout (textures g this)) (wholeImage (textures g this))], g)
         else (commandBuffer, g))"

subsection \<open>Host memory the CPU copies through\<close>

text \<open>
  A \<^verbatim>\<open>u8 *\<close> into host memory is either the data of a staging buffer or the mapping
  of the \<^verbatim>\<open>memory::Image\<close> that backs a texture. Reading through a pointer that has
  nothing behind it is undefined: \<open>None\<close>.
\<close>

datatype hostPointer = StagingBufferData nat | MappedImageData nat

definition readHost :: "hostPointer \<Rightarrow> GPU \<Rightarrow> u8 list option" where
  "readHost p g =
     (case p of
        StagingBufferData b \<Rightarrow>
          if b < length (stagingBuffers g) then Some (stagingBuffers g ! b) else None
      | MappedImageData texture \<Rightarrow>
          (case backing (textures g texture) of CpuMapped h d \<Rightarrow> Some d | _ \<Rightarrow> None))"

definition writeHost :: "hostPointer \<Rightarrow> u8 list \<Rightarrow> GPU \<Rightarrow> GPU" where
  "writeHost p d g =
     (case p of
        StagingBufferData b \<Rightarrow> g\<lparr>stagingBuffers := (stagingBuffers g)[b := d]\<rparr>
      | MappedImageData texture \<Rightarrow>
          updateTexture texture
            (\<lambda>t. t\<lparr>backing := (case backing t of CpuMapped h old \<Rightarrow> CpuMapped h d | b \<Rightarrow> b)\<rparr>) g)"

text \<open>The bytes of the first guest mapping are replaced.\<close>

definition writeGuest :: "nat \<Rightarrow> u8 list \<Rightarrow> GPU \<Rightarrow> GPU" where
  "writeGuest this d g =
     updateTexture this
       (\<lambda>t. t\<lparr>guest := map_option (\<lambda>gt. gt\<lparr>mappings := (mappings gt)[0 := d]\<rparr>) (guest t)\<rparr>) g"

text \<open>
  \<^verbatim>\<open>CopyToGuest(hostBuffer)\<close>. \<^verbatim>\<open>guest->mappings[0]\<close> is undefined when there is no
  guest descriptor or no mapping. The \<open>Linear\<close> branch is
  \<^verbatim>\<open>std::memcpy(hostBuffer, guestOutput, format->GetSize(dimensions))\<close>: its destination
  is \<open>hostBuffer\<close> and its source is \<open>guestOutput\<close>.
\<close>

definition CopyToGuest :: "Collaborators \<Rightarrow> nat \<Rightarrow> hostPointer \<Rightarrow> GPU \<Rightarrow> unit outcome \<times> GPU" where
  "CopyToGuest env this hostBuffer g =
     (case guest (textures g this) of
        None \<Rightarrow> (UndefinedBehaviour, g)
      | Some gt \<Rightarrow>
          (case mappings gt of
             [] \<Rightarrow> (UndefinedBehaviour, g)
           | guestOutput # _ \<Rightarrow>
               (case readHost hostBuffer g of
                  None \<Rightarrow> (UndefinedBehaviour, g)
                | Some host \<Rightarrow>
                    (case tileMode gt of
                       Block \<Rightarrow>
                         (Returned (),
                          writeGuest this (CopyLinearToBlockLinear env gt host guestOutput) g)
                     | Pitch \<Rightarrow>
                         (Returned (),
                          writeGuest this (CopyLinearToPitchLinear env gt host guestOutput) g)
                     | Linear \<Rightarrow>
                         (case memcpy host guestOutput
                                 (GetSize env (format (textures g this)) (dimensions (textures g this))) of
                            None \<Rightarrow> (UndefinedBehaviour, g)
                          | Some host' \<Rightarrow> (Returned (), writeHost hostBuffer host' g))))))"

text \<open>
  \<^verbatim>\<open>~TextureBufferCopy()\<close>, run when the fence cycle the guard is attached to releases
  it: \<^verbatim>\<open>CopyToGuest\<close> from the staging buffer if the guard has one, from the mapping of
  the texture's backing image otherwise. When the backing does not hold a
  \<^verbatim>\<open>memory::Image\<close>, \<^verbatim>\<open>std::get\<close> throws \<^verbatim>\<open>std::bad_variant_access\<close> inside the
  destructor, which is \<^verbatim>\<open>noexcept\<close>: the process is terminated.
\<close>

definition TextureBufferCopyRelease :: "Collaborators \<Rightarrow> nat \<Rightarrow> nat option \<Rightarrow> GPU \<Rightarrow> unit outcome \<times> GPU" where
  "TextureBufferCopyRelease env texture stagingBuffer g =
     (case stagingBuffer of
        Some b \<Rightarrow> CopyToGuest env texture (StagingBufferData b) g
      | None \<Rightarrow>
          if holdsMemoryImage (backing (textures g texture))
          then CopyToGuest env texture (MappedImageData texture) g
          else (Terminated, g))"

subsection \<open>Guest to host\<close>

text \<open>
  The choice of the buffer the guest bytes are converted into (the lambda of
  \<^verbatim>\<open>SynchronizeHostImpl\<close>): a new staging buffer, or the mapping of the backing image.
\<close>

definition selectHostBuffer :: "nat \<Rightarrow> nat option \<Rightarrow> nat \<Rightarrow> GPU \<Rightarrow> (nat option \<times> hostPointer) outcome \<times> GPU" where
  "selectHostBuffer this pCycle sz g =
     (if tiling (textures g this) = eOptimal \<or> \<not> holdsMemoryImage (backing (textures g this)) then
        (case AllocateStagingBuffer sz g of
           (stagingBuffer, g) \<Rightarrow> (Returned (Some stagingBuffer, StagingBufferData stagingBuffer), g))
      else if tiling (textures g this) = eLinear then
        (Returned (None, MappedImageData this),
         if cycle (textures g this) \<noteq> pCycle then WaitOnFence this g else g)
      else (Threw (GuestToHostNotImplemented (tiling (textures g this))), g))"

text \<open>
  The dispatch on the guest tile mode that fills \<open>bufferData\<close> from the guest bytes:
  \<open>guestToLinear\<close> is the new content of the buffer, \<open>copyGuestToBuffer\<close> stores it
  behind the pointer.
\<close>

definition guestToLinear :: "Collaborators \<Rightarrow> GuestTexture \<Rightarrow> u8 list \<Rightarrow> u8 list \<Rightarrow> nat \<Rightarrow> u8 list option" where
  "guestToLinear env gt pointer buffer sz =
     (case tileMode gt of
        Block \<Rightarrow> Some (CopyBlockLinearToLinear env gt pointer buffer)
      | Pitch \<Rightarrow> Some (CopyPitchLinearToLinear env gt pointer buffer)
      | Linear \<Rightarrow> memcpy buffer pointer sz)"

definition copyGuestToBuffer :: "Collaborators \<Rightarrow> GuestTexture \<Rightarrow> u8 list \<Rightarrow> hostPointer \<Rightarrow> nat \<Rightarrow> GPU \<Rightarrow> unit outcome \<times> GPU" where
  "copyGuestToBuffer env gt pointer bufferData sz g =
     (case readHost bufferData g of
        None \<Rightarrow> (UndefinedBehaviour, g)
      | Some buffer \<Rightarrow>
          (case guestToLinear env gt pointer buffer sz of
             None \<Rightarrow> (UndefinedBehaviour, g)
           | Some buffer' \<Rightarrow> (Returned (), writeHost bufferData buffer' g)))"

definition SynchronizeHostImpl :: "Collaborators \<Rightarrow> nat \<Rightarrow> nat option \<Rightarrow> GPU \<Rightarrow> nat option outcome \<times> GPU" where
  "SynchronizeHostImpl env this pCycle g =
     (case guest (textures g this) of
        None \<Rightarrow> (Threw HostSyncRequiresGuest, g)
      | Some gt \<Rightarrow>
          if guestDimensions gt \<noteq> dimensions (textures g this) then (Threw DimensionsDiffer, g)
          else if length (mappings gt) > 1 then (Threw (MultipleMappings (length (mappings gt))), g)
          else
            (case mappings gt of
               [] \<Rightarrow> (UndefinedBehaviour, g)
             | pointer # _ \<Rightarrow>
                 (let sz = GetSize env (format (textures g this)) (dimensions (textures g this)) in
                  andThen (WaitOnBacking this g) (\<lambda>_ g.
                  andThen (selectHostBuffer this pCycle sz g) (\<lambda>(stagingBuffer, bufferData) g.
                  andThen (copyGuestToBuffer env gt pointer bufferData sz g) (\<lambda>_ g.
                    (Returned stagingBuffer,
                     if stagingBuffer \<noteq> None \<and> cycle (textures g this) \<noteq> pCycle
                     then WaitOnFence this g else g)))))))"

definition SynchronizeHost :: "Collaborators \<Rightarrow> nat \<Rightarrow> GPU \<Rightarrow> unit outcome \<times> GPU" where
  "SynchronizeHost env this g =
     andThen (SynchronizeHostImpl env this None g) (\<lambda>stagingBuffer g.
       case stagingBuffer of
         Some b \<Rightarrow>
           (case Submit (CopyFromStagingBuffer this b) g of
              (lCycle, g) \<Rightarrow>
                (Returned (),
                 updateTexture this (\<lambda>t. t\<lparr>cycle := Some lCycle\<rparr>)
                   (AttachObjects lCycle [AttachedStagingBuffer b, AttachedTexture this] g)))
       | None \<Rightarrow> (Returned (), g))"

text \<open>
  The overload that records into the caller's command buffer; it returns the command
  buffer with what it recorded. \<open>pCycle\<close> is the caller's fence cycle.
\<close>

definition SynchronizeHostWithBuffer :: "Collaborators \<Rightarrow> nat \<Rightarrow> command list \<Rightarrow> nat \<Rightarrow> GPU \<Rightarrow> command list outcome \<times> GPU" where
  "SynchronizeHostWithBuffer env this commandBuffer pCycle g =
     andThen (SynchronizeHostImpl env this (Some pCycle) g) (\<lambda>stagingBuffer g.
       case stagingBuffer of
         Some b \<Rightarrow>
           (case CopyFromStagingBuffer this b commandBuffer g of
              (commandBuffer, g) \<Rightarrow>
                (Returned commandBuffer,
                 updateTexture this (\<lambda>t. t\<lparr>cycle := Some pCycle\<rparr>)
                   (AttachObjects pCycle [AttachedStagingBuffer b, AttachedTexture this] g)))
       | None \<Rightarrow> (Returned commandBuffer, g))"

subsection \<open>Host to guest\<close>

definition SynchronizeGuest :: "Collaborators \<Rightarrow> nat \<Rightarrow> GPU \<Rightarrow> unit outcome \<times> GPU" where
  "SynchronizeGuest env this g =
     (case guest (textures g this) of
        None \<Rightarrow> (Threw GuestSyncRequiresGuest, g)
      | Some gt \<Rightarrow>
          if layout (textures g this) = eUndefined then (Returned (), g)
          else if length (mappings gt) > 1 then (Threw (MultipleMappings (length (mappings gt))), g)
          else
            andThen (WaitOnBacking this g) (\<lambda>_ g.
              let g = WaitOnFence this g in
              if tiling (textures g this) = eOptimal \<or> \<not> holdsMemoryImage (backing (textures g this)) then
                (case AllocateStagingBuffer
                        (GetSize env (format (textures g this)) (dimensions (textures g this))) g of
                   (stagingBuffer, g) \<Rightarrow>
                     (case Submit (CopyIntoStagingBuffer this stagingBuffer) g of
                        (lCycle, g) \<Rightarrow>
                          (Returned (),
                           updateTexture this (\<lambda>t. t\<lparr>cycle := Some lCycle\<rparr>)
                             (AttachObjects lCycle
                                [AttachedTextureBufferCopy this (Some stagingBuffer)] g))))
              else if tiling (textures g this) = eLinear then
                CopyToGuest env this (MappedImageData this) g
              else (Threw (HostToGuestNotImplemented (tiling (textures g this))), g)))"

definition SynchronizeGuestWithBuffer :: "Collaborators \<Rightarrow> nat \<Rightarrow> command list \<Rightarrow> nat \<Rightarrow> GPU \<Rightarrow> command list outcome \<times> GPU" where
  "SynchronizeGuestWithBuffer env this commandBuffer pCycle g =
     (case guest (textures g this) of
        None \<Rightarrow> (Threw GuestSyncRequiresGuest, g)
      | Some gt \<Rightarrow>
          if layout (textures g this) = eUndefined then (Returned commandBuffer, g)
          else if length (mappings gt) > 1 then (Threw (MultipleMappings (length (mappings gt))), g)
          else
            andThen (WaitOnBacking this g) (\<lambda>_ g.
              let g = (if cycle (textures g this) \<noteq> Some pCycle then WaitOnFence this g else g) in
              if tiling (textures g this) = eOptimal \<or> \<not> holdsMemoryImage (backing (textures g this)) then
                (case AllocateStagingBuffer
                        (GetSize env (format (textures g this)) (dimensions (textures g this))) g of
                   (stagingBuffer, g) \<Rightarrow>
                     (case CopyIntoStagingBuffer this stagingBuffer commandBuffer g of
                        (commandBuffer, g) \<Rightarrow>
                          (Returned commandBuffer,
                           updateTexture this (\<lambda>t. t\<lparr>cycle := Some pCycle\<rparr>)
                             (AttachObjects pCycle
                                [AttachedTextureBufferCopy this (Some stagingBuffer)] g))))
              else if tiling (textures g this) = eLinear then
                andThen (CopyToGuest env this (MappedImageData this) g) (\<lambda>_ g.
                  (Returned commandBuffer,
                   updateTexture this (\<lambda>t. t\<lparr>cycle := Some pCycle\<rparr>)
                     (AttachObjects pCycle [AttachedTextureBufferCopy this None] g)))
              else (Threw (HostToGuestNotImplemented (tiling (textures g this))), g)))"


subsection \<open>Image to image\<close>

text \<open>
  The \<^verbatim>\<open>copyImage\<close> call in the loop of \<^verbatim>\<open>CopyFrom\<close>: the same subresource layers
  on both sides, the whole extent of the image.
\<close>

definition mipLevelCopy :: "nat option \<Rightarrow> nat option \<Rightarrow> Dimensions \<Rightarrow> ImageSubresourceLayers \<Rightarrow> command" where
  "mipLevelCopy sourceBacking destinationBacking dims subresourceLayers =
     copyImage sourceBacking eTransferSrcOptimal destinationBacking eTransferDstOptimal
       \<lparr>srcSubresource = subresourceLayers, dstSubresource = subresourceLayers, extent = dims\<rparr>"

text \<open>
  The \<^verbatim>\<open>for\<close> loop of \<^verbatim>\<open>CopyFrom\<close>: while \<open>subresourceLayers.mipLevel\<close> is below the
  bound, record one image copy and increment the level. The bound does not change during
  the loop.
\<close>

function copyImageLoop :: "nat option \<Rightarrow> nat option \<Rightarrow> Dimensions \<Rightarrow> u32 \<Rightarrow> ImageSubresourceLayers \<Rightarrow> command list \<Rightarrow> command list" where
  "copyImageLoop sourceBacking destinationBacking dims bound subresourceLayers commandBuffer =
     (if mipLevel subresourceLayers < bound then
        copyImageLoop sourceBacking destinationBacking dims bound
          (subresourceLayers\<lparr>mipLevel := mipLevel subresourceLayers + 1\<rparr>)
          (commandBuffer @ [mipLevelCopy sourceBacking destinationBacking dims subresourceLayers])
      else commandBuffer)"
  by pat_completeness auto
termination
proof (relation "measure (\<lambda>(s, d, dims, bound, l, cb). unat bound - unat (mipLevel l))")
  show "wf (measure (\<lambda>(s, d, dims, bound, l, cb). unat bound - unat (mipLevel l)))"
    by simp
next
  fix sourceBacking destinationBacking :: "nat option" and dims :: Dimensions
    and bound :: u32 and subresourceLayers :: ImageSubresourceLayers
    and commandBuffer :: "command list"
  assume "mipLevel subresourceLayers < bound"
  then have below: "unat (mipLevel subresourceLayers) < unat bound"
    by (simp add: word_less_nat_alt)
  moreover have "unat bound < 2 ^ 32"
    using unsigned_less [of bound] by simp
  ultimately have "unat (mipLevel subresourceLayers) + 1 < 2 ^ 32"
    by simp
  then have "unat (mipLevel subresourceLayers + 1) = Suc (unat (mipLevel subresourceLayers))"
    by (simp add: unat_word_ariths)
  with below show
    "((sourceBacking, destinationBacking, dims, bound,
       subresourceLayers\<lparr>mipLevel := mipLevel subresourceLayers + 1\<rparr>,
       commandBuffer @ [mipLevelCopy sourceBacking destinationBacking dims subresourceLayers]),
      (sourceBacking, destinationBacking, dims, bound, subresourceLayers, commandBuffer))
     \<in> measure (\<lambda>(s, d, dims, bound, l, cb). unat bound - unat (mipLevel l))"
    by simp
qed

text \<open>The equation of the loop calls the loop again: it is unfolded by hand only.\<close>

declare copyImageLoop.simps [simp del]

text \<open>
  The recording function \<^verbatim>\<open>CopyFrom\<close> submits. \<open>source->layout\<close> and \<open>layout\<close> are
  read from the state each time the source reads them.
\<close>

definition CopyFromRecord :: "nat \<Rightarrow> nat \<Rightarrow> ImageSubresourceRange \<Rightarrow> command list \<Rightarrow> GPU \<Rightarrow> command list \<times> GPU" where
  "CopyFromRecord this source subresource commandBuffer g =
     (let sourceBacking = GetBacking (textures g source);
          commandBuffer =
            (if layout (textures g source) \<noteq> eTransferSrcOptimal then
               commandBuffer @
                 [toTransferSrc eTopOfPipe sourceBacking (layout (textures g source)) subresource]
             else commandBuffer);
          destinationBacking = GetBacking (textures g this);
          (commandBuffer, g) =
            (if layout (textures g this) \<noteq> eTransferDstOptimal then
               (commandBuffer @
                  [toTransferDst destinationBacking (layout (textures g this)) subresource],
                if layout (textures g this) = eUndefined
                then updateTexture this (\<lambda>t. t\<lparr>layout := eTransferDstOptimal\<rparr>) g
                else g)
             else (commandBuffer, g));
          subresourceLayers =
            \<lparr>layersAspectMask = aspectMask subresource,
             mipLevel = baseMipLevel subresource,
             layersBaseArrayLayer = baseArrayLayer subresource,
             layersLayerCount =
               (if rangeLayerCount subresource = VK_REMAINING_ARRAY_LAYERS
                then layerCount (textures g this) - baseArrayLayer subresource
                else rangeLayerCount subresource)\<rparr>;
          commandBuffer =
            copyImageLoop sourceBacking destinationBacking (dimensions (textures g this))
              (if levelCount subresource = VK_REMAINING_MIP_LEVELS
               then mipLevels (textures g this) - baseMipLevel subresource
               else levelCount subresource)
              subresourceLayers commandBuffer;
          commandBuffer =
            (if layout (textures g this) \<noteq> eTransferDstOptimal then
               commandBuffer @
                 [fromTransferDst destinationBacking (layout (textures g this)) subresource]
             else commandBuffer);
          commandBuffer =
            (if layout (textures g this) \<noteq> eTransferSrcOptimal then
               commandBuffer @
                 [fromTransferSrc sourceBacking (layout (textures g source)) subresource]
             else commandBuffer)
      in (commandBuffer, g))"

definition CopyFrom :: "nat \<Rightarrow> nat \<Rightarrow> ImageSubresourceRange \<Rightarrow> GPU \<Rightarrow> unit outcome \<times> GPU" where
  "CopyFrom this source subresource g =
     andThen (WaitOnBacking this g) (\<lambda>_ g.
       let g = WaitOnFence this g in
       andThen (WaitOnBacking source g) (\<lambda>_ g.
         let g = WaitOnFence source g in
         if layout (textures g source) = eUndefined then (Threw CopyFromUndefinedLayout, g)
         else if dimensions (textures g source) \<noteq> dimensions (textures g this)
         then (Threw CopyFromDifferentDimensions, g)
         else if format (textures g source) \<noteq> format (textures g this)
         then (Threw CopyFromDifferentFormat, g)
         else
           (case Submit (CopyFromRecord this source subresource) g of
              (lCycle, g) \<Rightarrow>
                (Returned (),
                 updateTexture this (\<lambda>t. t\<lparr>cycle := Some lCycle\<rparr>)
                   (AttachObjects lCycle [AttachedTexture source, AttachedTexture this] g)))))"


section \<open>Concrete objects\<close>

text \<open>
  A small world to run the methods in: images of two by one pixels of one byte each,
  tiling conversions that copy their input, the texture under test at address \<open>0\<close> and
  a second texture at every other address.
\<close>

definition exampleEnv :: Collaborators where
  "exampleEnv =
     \<lparr>GetSize = (\<lambda>f d. unat (width d) * unat (height d) * unat (depth d)),
      CopyBlockLinearToLinear = (\<lambda>gt input output. input),
      CopyPitchLinearToLinear = (\<lambda>gt input output. input),
      CopyLinearToBlockLinear = (\<lambda>gt input output. input),
      CopyLinearToPitchLinear = (\<lambda>gt input output. input)\<rparr>"

definition exampleDimensions :: Dimensions where
  "exampleDimensions = \<lparr>width = 2, height = 1, depth = 1\<rparr>"

definition exampleFormat :: Format where
  "exampleFormat = \<lparr>vkFormat = 9, vkAspect = 1\<rparr>"

definition exampleGuest :: "TileMode \<Rightarrow> u8 list list \<Rightarrow> GuestTexture" where
  "exampleGuest mode maps =
     \<lparr>mappings = maps, guestDimensions = exampleDimensions, guestFormat = exampleFormat,
      tileMode = mode, guestLayerCount = 1\<rparr>"

definition exampleTexture :: "BackingType \<Rightarrow> ImageLayout \<Rightarrow> GuestTexture option \<Rightarrow> ImageTiling \<Rightarrow> nat option \<Rightarrow> Texture" where
  "exampleTexture b l gt til c =
     \<lparr>backing = b, layout = l, guest = gt, dimensions = exampleDimensions,
      format = exampleFormat, tiling = til, mipLevels = 1, layerCount = 1, sampleCount = 1,
      cycle = c, views = []\<rparr>"

definition exampleGPU :: "Texture \<Rightarrow> Texture \<Rightarrow> GPU" where
  "exampleGPU t s =
     \<lparr>textures = (\<lambda>a. if a = 0 then t else s), stagingBuffers = [], submitted = [],
      attachedObjects = (\<lambda>c. []), waited = []\<rparr>"


definition exampleOther :: Texture where
  "exampleOther = exampleTexture Absent eUndefined None eOptimal None"

text \<open>A GPU-local image whose content is still undefined, and one in the general layout.\<close>

definition freshImageGPU :: GPU where
  "freshImageGPU = exampleGPU (exampleTexture (GpuLocal 1) eUndefined None eOptimal None) exampleOther"

definition generalImageGPU :: GPU where
  "generalImageGPU = exampleGPU (exampleTexture (GpuLocal 1) eGeneral None eOptimal None) exampleOther"

text \<open>
  Textures with a guest descriptor. The host image is mapped on the CPU with bytes
  \<open>[1, 2]\<close> unless it is GPU-local; the first guest mapping holds \<open>[3, 4]\<close>.
\<close>

definition noGuestGPU :: GPU where
  "noGuestGPU = exampleGPU (exampleTexture (CpuMapped 1 [1, 2]) eGeneral None eLinear None) exampleOther"

definition undefinedTwoMappingsGPU :: GPU where
  "undefinedTwoMappingsGPU =
     exampleGPU (exampleTexture (CpuMapped 1 [1, 2]) eUndefined
                   (Some (exampleGuest Linear [[3, 4], [5, 6]])) eLinear None) exampleOther"

definition generalTwoMappingsGPU :: GPU where
  "generalTwoMappingsGPU =
     exampleGPU (exampleTexture (CpuMapped 1 [1, 2]) eGeneral
                   (Some (exampleGuest Linear [[3, 4], [5, 6]])) eLinear None) exampleOther"

text \<open>A guest texture of four by one pixels on a host image of two by one.\<close>

definition widerGuestGPU :: GPU where
  "widerGuestGPU =
     exampleGPU (exampleTexture (CpuMapped 1 [1, 2]) eGeneral
                   (Some ((exampleGuest Pitch [[3, 4, 5, 6]])
                            \<lparr>guestDimensions := \<lparr>width = 4, height = 1, depth = 1\<rparr>\<rparr>))
                   eLinear None) exampleOther"

definition noMappingGPU :: GPU where
  "noMappingGPU =
     exampleGPU (exampleTexture (CpuMapped 1 [1, 2]) eGeneral
                   (Some (exampleGuest Linear [])) eLinear None) exampleOther"

definition directGuestGPU :: GPU where
  "directGuestGPU =
     exampleGPU (exampleTexture (CpuMapped 1 [1, 2]) eGeneral
                   (Some (exampleGuest Linear [[3, 4]])) eLinear None) exampleOther"

definition directBlockGPU :: GPU where
  "directBlockGPU =
     exampleGPU (exampleTexture (CpuMapped 1 [1, 2]) eGeneral
                   (Some (exampleGuest Block [[3, 4]])) eLinear (Some 5)) exampleOther"

definition directLinearGPU :: GPU where
  "directLinearGPU =
     exampleGPU (exampleTexture (CpuMapped 1 [1, 2]) eGeneral
                   (Some (exampleGuest Linear [[3, 4]])) eLinear (Some 5)) exampleOther"

definition stagingBlockGPU :: GPU where
  "stagingBlockGPU =
     exampleGPU (exampleTexture (GpuLocal 1) eGeneral
                   (Some (exampleGuest Block [[3, 4]])) eOptimal (Some 5)) exampleOther"

definition stagingUndefinedGPU :: GPU where
  "stagingUndefinedGPU =
     exampleGPU (exampleTexture (GpuLocal 1) eUndefined
                   (Some (exampleGuest Block [[3, 4]])) eOptimal None) exampleOther"

text \<open>
  Two GPU-local images for \<^verbatim>\<open>CopyFrom\<close>, the destination at address \<open>0\<close> with
  pending cycle \<open>5\<close>, the source at address \<open>1\<close> with pending cycle \<open>6\<close>.
\<close>

definition copyGPU :: "ImageLayout \<Rightarrow> ImageLayout \<Rightarrow> GPU" where
  "copyGPU destinationLayout sourceLayout =
     exampleGPU (exampleTexture (GpuLocal 1) destinationLayout None eOptimal (Some 5))
                (exampleTexture (GpuLocal 2) sourceLayout None eOptimal (Some 6))"

definition exampleRange :: "u32 \<Rightarrow> u32 \<Rightarrow> ImageSubresourceRange" where
  "exampleRange base levels =
     \<lparr>aspectMask = 1, baseMipLevel = base, levelCount = levels, baseArrayLayer = 0,
      rangeLayerCount = VK_REMAINING_ARRAY_LAYERS\<rparr>"

section \<open>Waiting on the fence\<close>

lemma textures_WaitOnFence:
  "textures (WaitOnFence this g) = (textures g)(this := (textures g this)\<lparr>cycle := None\<rparr>)"
  by (auto simp: WaitOnFence_def updateTexture_def Wait_def split: option.splits)

lemma submitted_WaitOnFence [simp]: "submitted (WaitOnFence this g) = submitted g"
  by (simp add: WaitOnFence_def updateTexture_def Wait_def split: option.splits)

lemma stagingBuffers_WaitOnFence [simp]: "stagingBuffers (WaitOnFence this g) = stagingBuffers g"
  by (simp add: WaitOnFence_def updateTexture_def Wait_def split: option.splits)

lemma attachedObjects_WaitOnFence [simp]: "attachedObjects (WaitOnFence this g) = attachedObjects g"
  by (simp add: WaitOnFence_def updateTexture_def Wait_def split: option.splits)

lemmas example_defs =
  exampleEnv_def exampleDimensions_def exampleFormat_def exampleGuest_def exampleTexture_def
  exampleGPU_def exampleOther_def

section \<open>Layout transitions\<close>

text \<open>With the backing present, \<^verbatim>\<open>TransitionLayout\<close> returns, and submits only when the layout differs.\<close>

lemma TransitionLayout_present:
  assumes "GetBacking (textures g this) \<noteq> None"
  shows "TransitionLayout this L g =
    (if layout (textures g this) \<noteq> L then
       (Returned (),
        (WaitOnFence this g)
          \<lparr>submitted := submitted g @ [[TransitionLayoutBarrier (textures g this) L]],
           textures := (textures g)
             (this := (textures g this)\<lparr>cycle := Some (length (submitted g)), layout := L\<rparr>)\<rparr>)
     else (Returned (), WaitOnFence this g))"
  using assms
  by (simp add: TransitionLayout_def WaitOnBacking_def Let_def Submit_def updateTexture_def
      textures_WaitOnFence TransitionLayoutBarrier_def GetBacking_def wholeImage_def)

text \<open>
  Claim C6, as stated, fails on a texture that is already in layout \<open>L\<close>: two calls of
  \<^verbatim>\<open>TransitionLayout(L)\<close> then submit nothing at all, not exactly one command.
\<close>

theorem TransitionLayout_twice_counterexample:
  "GetBacking (textures generalImageGPU 0) \<noteq> None \<and>
   length (submitted (snd (TransitionLayout 0 eGeneral (snd (TransitionLayout 0 eGeneral generalImageGPU)))))
     \<noteq> length (submitted generalImageGPU) + 1"
  by (simp add: generalImageGPU_def example_defs GetBacking_def TransitionLayout_present
      textures_WaitOnFence)

text \<open>
  Claim C6, amended. For every texture with backing present and every layout \<open>L\<close>, two
  calls of \<^verbatim>\<open>TransitionLayout(L)\<close> in a row both return, the cached layout is \<open>L\<close>
  after either call, the second call submits nothing, and the first call submits one
  unit holding one layout barrier if the layout differed from \<open>L\<close> before it and
  nothing otherwise: at most one GPU command in total.
\<close>

theorem TransitionLayout_twice:
  assumes "GetBacking (textures g this) \<noteq> None"
  shows "fst (TransitionLayout this L g) = Returned () \<and>
         fst (TransitionLayout this L (snd (TransitionLayout this L g))) = Returned () \<and>
         layout (textures (snd (TransitionLayout this L g)) this) = L \<and>
         layout (textures (snd (TransitionLayout this L (snd (TransitionLayout this L g)))) this) = L \<and>
         submitted (snd (TransitionLayout this L (snd (TransitionLayout this L g)))) =
           submitted (snd (TransitionLayout this L g)) \<and>
         submitted (snd (TransitionLayout this L g)) =
           (if layout (textures g this) \<noteq> L
            then submitted g @ [[TransitionLayoutBarrier (textures g this) L]]
            else submitted g)"
proof -
  let ?g1 = "snd (TransitionLayout this L g)"
  have first: "fst (TransitionLayout this L g) = Returned ()"
    and layout1: "layout (textures ?g1 this) = L"
    and sub1: "submitted ?g1 =
           (if layout (textures g this) \<noteq> L
            then submitted g @ [[TransitionLayoutBarrier (textures g this) L]]
            else submitted g)"
    and backing1: "GetBacking (textures ?g1 this) \<noteq> None"
    using assms by (simp_all add: TransitionLayout_present textures_WaitOnFence GetBacking_def)
  from backing1 layout1 have second: "TransitionLayout this L ?g1 = (Returned (), WaitOnFence this ?g1)"
    by (simp add: TransitionLayout_present)
  from first layout1 sub1 second show ?thesis
    by (simp add: textures_WaitOnFence)
qed

theorem TransitionLayout_twice_witness:
  "GetBacking (textures freshImageGPU 0) \<noteq> None \<and>
   length (submitted (snd (TransitionLayout 0 eGeneral (snd (TransitionLayout 0 eGeneral freshImageGPU))))) = 1 \<and>
   layout (textures (snd (TransitionLayout 0 eGeneral freshImageGPU)) 0) = eGeneral"
  using TransitionLayout_twice [of freshImageGPU 0 eGeneral]
  by (simp add: freshImageGPU_def example_defs GetBacking_def)


section \<open>Sequencing\<close>

lemma snd_andThen:
  "snd (andThen m f) = (case fst m of Returned x \<Rightarrow> snd (f x (snd m)) | _ \<Rightarrow> snd m)"
  by (cases m; cases "fst m") auto

lemma fst_andThen:
  "fst (andThen m f) =
     (case fst m of Returned x \<Rightarrow> fst (f x (snd m)) | Threw e \<Rightarrow> Threw e | Blocked \<Rightarrow> Blocked
      | UndefinedBehaviour \<Rightarrow> UndefinedBehaviour | Terminated \<Rightarrow> Terminated)"
  by (cases m; cases "fst m") auto

lemma andThen_Returned:
  "fst m = Returned x \<Longrightarrow> andThen m f = f x (snd m)"
  by (cases m) simp

lemma WaitOnFence_unless_None:
  "(if cycle (textures g this) \<noteq> None then WaitOnFence this g else g) = WaitOnFence this g"
  by (simp add: WaitOnFence_def)

lemma textures_AttachObjects [simp]: "textures (AttachObjects c objs g) = textures g"
  by (simp add: AttachObjects_def)

section \<open>The contract checks\<close>

text \<open>
  Claim C9. In \<^verbatim>\<open>SynchronizeGuest\<close> and \<^verbatim>\<open>SynchronizeGuestWithBuffer\<close> the check for
  the undefined layout comes before the check of the number of mappings: for a texture
  with a guest descriptor, undefined layout and more than one guest mapping, both calls
  return without an error and leave the state (and the caller's command buffer) as it
  was.
\<close>

theorem undefined_layout_before_mapping_count:
  assumes "guest (textures g this) = Some gt"
    and "layout (textures g this) = eUndefined"
    and "length (mappings gt) > 1"
  shows "SynchronizeGuest env this g = (Returned (), g) \<and>
         SynchronizeGuestWithBuffer env this commandBuffer pCycle g = (Returned commandBuffer, g)"
  using assms by (simp add: SynchronizeGuest_def SynchronizeGuestWithBuffer_def)

theorem undefined_layout_before_mapping_count_witness:
  "guest (textures undefinedTwoMappingsGPU 0) = Some (exampleGuest Linear [[3, 4], [5, 6]]) \<and>
   layout (textures undefinedTwoMappingsGPU 0) = eUndefined \<and>
   length (mappings (exampleGuest Linear [[3, 4], [5, 6]])) > 1 \<and>
   SynchronizeGuest exampleEnv 0 undefinedTwoMappingsGPU = (Returned (), undefinedTwoMappingsGPU) \<and>
   SynchronizeGuestWithBuffer exampleEnv 0 [] 7 undefinedTwoMappingsGPU =
     (Returned [], undefinedTwoMappingsGPU)"
  using undefined_layout_before_mapping_count
    [of undefinedTwoMappingsGPU 0 "exampleGuest Linear [[3, 4], [5, 6]]" exampleEnv "[]" 7]
  by (simp add: undefinedTwoMappingsGPU_def exampleGPU_def exampleTexture_def exampleGuest_def)

text \<open>
  Claim C3, as stated, fails twice. A texture with undefined layout and two guest
  mappings is not rejected: both calls return. And the guest direction has no check of
  the dimensions: with a guest texture of other dimensions than the host image both
  calls return as well.
\<close>

theorem SynchronizeGuest_contract_counterexample:
  "map_option (length \<circ> mappings) (guest (textures undefinedTwoMappingsGPU 0)) = Some 2 \<and>
   fst (SynchronizeGuest exampleEnv 0 undefinedTwoMappingsGPU) = Returned () \<and>
   fst (SynchronizeGuestWithBuffer exampleEnv 0 [] 7 undefinedTwoMappingsGPU) = Returned [] \<and>
   map_option guestDimensions (guest (textures widerGuestGPU 0))
     \<noteq> Some (dimensions (textures widerGuestGPU 0)) \<and>
   fst (SynchronizeGuest exampleEnv 0 widerGuestGPU) = Returned () \<and>
   fst (SynchronizeGuestWithBuffer exampleEnv 0 [] 7 widerGuestGPU) = Returned []"
  by (simp add: undefinedTwoMappingsGPU_def widerGuestGPU_def example_defs
      SynchronizeGuest_def SynchronizeGuestWithBuffer_def
      WaitOnBacking_def GetBacking_def WaitOnFence_def holdsMemoryImage_def CopyToGuest_def
      readHost_def writeGuest_def updateTexture_def AttachObjects_def)

text \<open>
  Claim C3, amended. \<^verbatim>\<open>SynchronizeGuest\<close> and \<^verbatim>\<open>SynchronizeGuestWithBuffer\<close> fail
  with a fatal error if the guest descriptor is absent, and, when the layout is not
  undefined, if the guest descriptor has more than one mapping; the failing call leaves
  the whole state as it was.
\<close>

theorem SynchronizeGuest_contract:
  "(guest (textures g this) = None \<longrightarrow>
      SynchronizeGuest env this g = (Threw GuestSyncRequiresGuest, g) \<and>
      SynchronizeGuestWithBuffer env this commandBuffer pCycle g = (Threw GuestSyncRequiresGuest, g)) \<and>
   (\<forall>gt. guest (textures g this) = Some gt \<and> layout (textures g this) \<noteq> eUndefined \<and>
         length (mappings gt) > 1 \<longrightarrow>
      SynchronizeGuest env this g = (Threw (MultipleMappings (length (mappings gt))), g) \<and>
      SynchronizeGuestWithBuffer env this commandBuffer pCycle g =
        (Threw (MultipleMappings (length (mappings gt))), g))"
  by (simp add: SynchronizeGuest_def SynchronizeGuestWithBuffer_def)

theorem SynchronizeGuest_contract_witness:
  "guest (textures noGuestGPU 0) = None \<and>
   SynchronizeGuest exampleEnv 0 noGuestGPU = (Threw GuestSyncRequiresGuest, noGuestGPU) \<and>
   SynchronizeGuestWithBuffer exampleEnv 0 [] 7 noGuestGPU = (Threw GuestSyncRequiresGuest, noGuestGPU) \<and>
   guest (textures generalTwoMappingsGPU 0) = Some (exampleGuest Linear [[3, 4], [5, 6]]) \<and>
   layout (textures generalTwoMappingsGPU 0) \<noteq> eUndefined \<and>
   SynchronizeGuest exampleEnv 0 generalTwoMappingsGPU =
     (Threw (MultipleMappings 2), generalTwoMappingsGPU) \<and>
   SynchronizeGuestWithBuffer exampleEnv 0 [] 7 generalTwoMappingsGPU =
     (Threw (MultipleMappings 2), generalTwoMappingsGPU)"
  using SynchronizeGuest_contract [of noGuestGPU 0 exampleEnv "[]" 7]
    SynchronizeGuest_contract [of generalTwoMappingsGPU 0 exampleEnv "[]" 7]
  by (simp add: noGuestGPU_def generalTwoMappingsGPU_def exampleGPU_def exampleTexture_def
      exampleGuest_def)

text \<open>
  Claim C4, as stated, fails for a guest descriptor without mappings: the only check of
  the number of mappings is \<^verbatim>\<open>guest->mappings.size() > 1\<close>, so the call passes the
  checks and reads \<^verbatim>\<open>guest->mappings[0]\<close> of an empty vector instead of throwing.
\<close>

theorem SynchronizeHost_contract_counterexample:
  "map_option mappings (guest (textures noMappingGPU 0)) = Some [] \<and>
   fst (SynchronizeHost exampleEnv 0 noMappingGPU) = UndefinedBehaviour \<and>
   fst (SynchronizeHostWithBuffer exampleEnv 0 [] 7 noMappingGPU) = UndefinedBehaviour"
  by (simp add: noMappingGPU_def example_defs
      SynchronizeHost_def SynchronizeHostWithBuffer_def SynchronizeHostImpl_def)

text \<open>
  Claim C4, amended. \<^verbatim>\<open>SynchronizeHost\<close> and its buffer overload fail with a fatal
  error before any state mutation if the guest descriptor is absent, if the guest and
  host dimensions differ, or if the guest descriptor has more than one mapping: the state
  after the failing call is the state before it, so layout, backing, pending cycle and
  view cache are unchanged.
\<close>

theorem SynchronizeHost_contract:
  "(guest (textures g this) = None \<longrightarrow>
      SynchronizeHost env this g = (Threw HostSyncRequiresGuest, g) \<and>
      SynchronizeHostWithBuffer env this commandBuffer pCycle g = (Threw HostSyncRequiresGuest, g)) \<and>
   (\<forall>gt. guest (textures g this) = Some gt \<and> guestDimensions gt \<noteq> dimensions (textures g this) \<longrightarrow>
      SynchronizeHost env this g = (Threw DimensionsDiffer, g) \<and>
      SynchronizeHostWithBuffer env this commandBuffer pCycle g = (Threw DimensionsDiffer, g)) \<and>
   (\<forall>gt. guest (textures g this) = Some gt \<and> guestDimensions gt = dimensions (textures g this) \<and>
         length (mappings gt) > 1 \<longrightarrow>
      SynchronizeHost env this g = (Threw (MultipleMappings (length (mappings gt))), g) \<and>
      SynchronizeHostWithBuffer env this commandBuffer pCycle g =
        (Threw (MultipleMappings (length (mappings gt))), g))"
  by (simp add: SynchronizeHost_def SynchronizeHostWithBuffer_def SynchronizeHostImpl_def)

theorem SynchronizeHost_contract_witness:
  "guest (textures noGuestGPU 0) = None \<and>
   SynchronizeHost exampleEnv 0 noGuestGPU = (Threw HostSyncRequiresGuest, noGuestGPU) \<and>
   SynchronizeHostWithBuffer exampleEnv 0 [] 7 noGuestGPU = (Threw HostSyncRequiresGuest, noGuestGPU) \<and>
   map_option guestDimensions (guest (textures widerGuestGPU 0))
     \<noteq> Some (dimensions (textures widerGuestGPU 0)) \<and>
   SynchronizeHost exampleEnv 0 widerGuestGPU = (Threw DimensionsDiffer, widerGuestGPU) \<and>
   SynchronizeHostWithBuffer exampleEnv 0 [] 7 widerGuestGPU = (Threw DimensionsDiffer, widerGuestGPU) \<and>
   map_option (length \<circ> mappings) (guest (textures generalTwoMappingsGPU 0)) = Some 2 \<and>
   SynchronizeHost exampleEnv 0 generalTwoMappingsGPU =
     (Threw (MultipleMappings 2), generalTwoMappingsGPU) \<and>
   SynchronizeHostWithBuffer exampleEnv 0 [] 7 generalTwoMappingsGPU =
     (Threw (MultipleMappings 2), generalTwoMappingsGPU)"
  using SynchronizeHost_contract [of noGuestGPU 0 exampleEnv "[]" 7]
    SynchronizeHost_contract [of widerGuestGPU 0 exampleEnv "[]" 7]
    SynchronizeHost_contract [of generalTwoMappingsGPU 0 exampleEnv "[]" 7]
  by (simp add: noGuestGPU_def widerGuestGPU_def generalTwoMappingsGPU_def exampleGPU_def
      exampleTexture_def exampleGuest_def exampleDimensions_def)


section \<open>Copies through a staging buffer\<close>

text \<open>The commands the two staging copies record, and what they do to the state.\<close>

lemma CopyFromStagingBuffer_eq:
  "CopyFromStagingBuffer this b cb g =
     (cb @ (if layout (textures g this) \<noteq> eTransferDstOptimal
            then [toTransferDst (GetBacking (textures g this)) (layout (textures g this))
                    (wholeImage (textures g this))]
            else [])
         @ [copyBufferToImage b (GetBacking (textures g this)) eTransferDstOptimal
              (wholeImageCopy (textures g this))]
         @ (if layout (textures g this) \<noteq> eTransferDstOptimal \<and> layout (textures g this) \<noteq> eUndefined
            then [fromTransferDst (GetBacking (textures g this)) (layout (textures g this))
                    (wholeImage (textures g this))]
            else []),
      if layout (textures g this) = eUndefined
      then updateTexture this (\<lambda>t. t\<lparr>layout := eTransferDstOptimal\<rparr>) g else g)"
  by (simp add: CopyFromStagingBuffer_def Let_def updateTexture_def wholeImageCopy_def)

lemma CopyIntoStagingBuffer_eq:
  "CopyIntoStagingBuffer this b cb g =
     (cb @ (if layout (textures g this) \<noteq> eTransferSrcOptimal
            then [toTransferSrc (if layout (textures g this) \<noteq> eUndefined then eTopOfPipe else eBottomOfPipe)
                    (GetBacking (textures g this)) (layout (textures g this))
                    (wholeImage (textures g this))]
            else [])
         @ [copyImageToBuffer (GetBacking (textures g this)) eTransferSrcOptimal b
              (wholeImageCopy (textures g this))]
         @ (if layout (textures g this) \<noteq> eTransferSrcOptimal \<and> layout (textures g this) \<noteq> eUndefined
            then [fromTransferSrc (GetBacking (textures g this)) (layout (textures g this))
                    (wholeImage (textures g this))]
            else []),
      if layout (textures g this) = eUndefined
      then updateTexture this (\<lambda>t. t\<lparr>layout := eTransferSrcOptimal\<rparr>) g else g)"
  by (simp add: CopyIntoStagingBuffer_def Let_def updateTexture_def wholeImageCopy_def)


subsection \<open>What synchronization does to the layout\<close>

lemma layout_WaitOnFence [simp]: "layout (textures (WaitOnFence this g) a) = layout (textures g a)"
  by (simp add: textures_WaitOnFence)

lemma layout_writeHost [simp]: "layout (textures (writeHost p d g) a) = layout (textures g a)"
  by (simp add: writeHost_def updateTexture_def split: hostPointer.splits)

lemma layout_writeGuest [simp]: "layout (textures (writeGuest this d g) a) = layout (textures g a)"
  by (simp add: writeGuest_def updateTexture_def)

lemma layout_CopyToGuest [simp]:
  "layout (textures (snd (CopyToGuest env this p g)) a) = layout (textures g a)"
  by (simp add: CopyToGuest_def split: option.splits list.splits TileMode.splits)

lemma layout_updateTexture_cycle [simp]:
  "layout (textures (updateTexture this (\<lambda>t. t\<lparr>cycle := c\<rparr>) g) a) = layout (textures g a)"
  by (simp add: updateTexture_def)

lemma layout_SynchronizeGuest:
  "layout (textures (snd (SynchronizeGuest env this g)) a) = layout (textures g a)"
  by (simp add: SynchronizeGuest_def WaitOnBacking_def Let_def AllocateStagingBuffer_def
      Submit_def CopyIntoStagingBuffer_eq
      split: option.splits)

lemma layout_SynchronizeGuestWithBuffer:
  "layout (textures (snd (SynchronizeGuestWithBuffer env this cb pCycle g)) a) = layout (textures g a)"
  by (simp add: SynchronizeGuestWithBuffer_def WaitOnBacking_def Let_def AllocateStagingBuffer_def
      CopyIntoStagingBuffer_eq snd_andThen
      split: option.splits outcome.splits)

lemma layout_selectHostBuffer [simp]:
  "layout (textures (snd (selectHostBuffer this pCycle sz g)) a) = layout (textures g a)"
  by (simp add: selectHostBuffer_def AllocateStagingBuffer_def)

lemma layout_copyGuestToBuffer [simp]:
  "layout (textures (snd (copyGuestToBuffer env gt pointer p sz g)) a) = layout (textures g a)"
  by (simp add: copyGuestToBuffer_def split: option.splits)

lemma layout_SynchronizeHostImpl:
  "layout (textures (snd (SynchronizeHostImpl env this pCycle g)) a) = layout (textures g a)"
  by (simp add: SynchronizeHostImpl_def WaitOnBacking_def Let_def snd_andThen
      split: option.splits list.splits outcome.splits prod.splits)


lemma fst_selectHostBuffer:
  "fst (selectHostBuffer this pCycle sz g) = Returned (sb, p) \<Longrightarrow>
     (sb \<noteq> None) = (tiling (textures g this) = eOptimal \<or> \<not> holdsMemoryImage (backing (textures g this)))"
  by (auto simp: selectHostBuffer_def AllocateStagingBuffer_def split: if_splits)

lemma SynchronizeHostImpl_staging_iff:
  assumes "fst (SynchronizeHostImpl env this pCycle g) = Returned sb"
  shows "(sb \<noteq> None) =
     (tiling (textures g this) = eOptimal \<or> \<not> holdsMemoryImage (backing (textures g this)))"
proof -
  from assms obtain gt pointer rest where "guest (textures g this) = Some gt"
    and "mappings gt = pointer # rest"
    by (auto simp: SynchronizeHostImpl_def split: option.splits if_splits list.splits)
  with assms obtain p where
    "fst (selectHostBuffer this pCycle (GetSize env (format (textures g this)) (dimensions (textures g this))) g)
       = Returned (sb, p)"
    by (auto simp: SynchronizeHostImpl_def WaitOnBacking_def Let_def fst_andThen
        split: if_splits outcome.splits prod.splits)
  then show ?thesis by (rule fst_selectHostBuffer)
qed

lemma layout_SynchronizeHost:
  "layout (textures (snd (SynchronizeHost env this g)) this) =
     (if fst (SynchronizeHost env this g) = Returned () \<and>
         (tiling (textures g this) = eOptimal \<or> \<not> holdsMemoryImage (backing (textures g this))) \<and>
         layout (textures g this) = eUndefined
      then eTransferDstOptimal else layout (textures g this))"
proof (cases "fst (SynchronizeHostImpl env this None g)")
  case (Returned sb)
  note iff = SynchronizeHostImpl_staging_iff [OF Returned]
  show ?thesis
  proof (cases sb)
    case None
    with Returned iff show ?thesis
      by (simp add: SynchronizeHost_def snd_andThen fst_andThen layout_SynchronizeHostImpl)
  next
    case (Some b)
    with Returned iff show ?thesis
      by (simp add: SynchronizeHost_def snd_andThen fst_andThen layout_SynchronizeHostImpl
          Submit_def CopyFromStagingBuffer_eq updateTexture_def split: prod.splits)
  qed
qed (simp_all add: SynchronizeHost_def snd_andThen fst_andThen layout_SynchronizeHostImpl)

lemma layout_SynchronizeHostWithBuffer:
  "layout (textures (snd (SynchronizeHostWithBuffer env this cb pCycle g)) this) =
     (if (\<exists>cb'. fst (SynchronizeHostWithBuffer env this cb pCycle g) = Returned cb') \<and>
         (tiling (textures g this) = eOptimal \<or> \<not> holdsMemoryImage (backing (textures g this))) \<and>
         layout (textures g this) = eUndefined
      then eTransferDstOptimal else layout (textures g this))"
proof (cases "fst (SynchronizeHostImpl env this (Some pCycle) g)")
  case (Returned sb)
  note iff = SynchronizeHostImpl_staging_iff [OF Returned]
  show ?thesis
  proof (cases sb)
    case None
    with Returned iff show ?thesis
      by (simp add: SynchronizeHostWithBuffer_def snd_andThen fst_andThen layout_SynchronizeHostImpl)
  next
    case (Some b)
    with Returned iff show ?thesis
      by (simp add: SynchronizeHostWithBuffer_def snd_andThen fst_andThen layout_SynchronizeHostImpl
          CopyFromStagingBuffer_eq updateTexture_def split: prod.splits)
  qed
qed (simp_all add: SynchronizeHostWithBuffer_def snd_andThen fst_andThen layout_SynchronizeHostImpl)


text \<open>
  Claim C10. When \<^verbatim>\<open>CopyFromStagingBuffer\<close> or \<^verbatim>\<open>CopyIntoStagingBuffer\<close> runs on a
  texture whose layout is undefined, it records the barrier into the transfer layout
  and the copy but no barrier back, and the layout field becomes transfer-destination
  (guest to host) or transfer-source (host to guest); with any other layout it leaves
  the whole state as it was. For the callers: \<^verbatim>\<open>SynchronizeHost\<close> and its buffer
  overload change the layout field only when they return on the staging path from an
  undefined layout, then to transfer-destination; \<^verbatim>\<open>SynchronizeGuest\<close> and its buffer
  overload never change it.
\<close>

theorem synchronization_layout_effect:
  "(layout (textures g this) = eUndefined \<longrightarrow>
      layout (textures (snd (CopyFromStagingBuffer this b cb g)) this) = eTransferDstOptimal \<and>
      fst (CopyFromStagingBuffer this b cb g) =
        cb @ [toTransferDst (GetBacking (textures g this)) eUndefined (wholeImage (textures g this)),
              copyBufferToImage b (GetBacking (textures g this)) eTransferDstOptimal
                (wholeImageCopy (textures g this))] \<and>
      layout (textures (snd (CopyIntoStagingBuffer this b cb g)) this) = eTransferSrcOptimal \<and>
      fst (CopyIntoStagingBuffer this b cb g) =
        cb @ [toTransferSrc eBottomOfPipe (GetBacking (textures g this)) eUndefined
                (wholeImage (textures g this)),
              copyImageToBuffer (GetBacking (textures g this)) eTransferSrcOptimal b
                (wholeImageCopy (textures g this))]) \<and>
   (layout (textures g this) \<noteq> eUndefined \<longrightarrow>
      snd (CopyFromStagingBuffer this b cb g) = g \<and>
      snd (CopyIntoStagingBuffer this b cb g) = g) \<and>
   layout (textures (snd (SynchronizeHost env this g)) this) =
     (if fst (SynchronizeHost env this g) = Returned () \<and>
         (tiling (textures g this) = eOptimal \<or> \<not> holdsMemoryImage (backing (textures g this))) \<and>
         layout (textures g this) = eUndefined
      then eTransferDstOptimal else layout (textures g this)) \<and>
   layout (textures (snd (SynchronizeHostWithBuffer env this cb pCycle g)) this) =
     (if (\<exists>cb'. fst (SynchronizeHostWithBuffer env this cb pCycle g) = Returned cb') \<and>
         (tiling (textures g this) = eOptimal \<or> \<not> holdsMemoryImage (backing (textures g this))) \<and>
         layout (textures g this) = eUndefined
      then eTransferDstOptimal else layout (textures g this)) \<and>
   layout (textures (snd (SynchronizeGuest env this g)) this) = layout (textures g this) \<and>
   layout (textures (snd (SynchronizeGuestWithBuffer env this cb pCycle g)) this) =
     layout (textures g this)"
proof (intro conjI impI)
  assume "layout (textures g this) = eUndefined"
  then show "layout (textures (snd (CopyFromStagingBuffer this b cb g)) this) = eTransferDstOptimal"
    and "fst (CopyFromStagingBuffer this b cb g) =
        cb @ [toTransferDst (GetBacking (textures g this)) eUndefined (wholeImage (textures g this)),
              copyBufferToImage b (GetBacking (textures g this)) eTransferDstOptimal
                (wholeImageCopy (textures g this))]"
    and "layout (textures (snd (CopyIntoStagingBuffer this b cb g)) this) = eTransferSrcOptimal"
    and "fst (CopyIntoStagingBuffer this b cb g) =
        cb @ [toTransferSrc eBottomOfPipe (GetBacking (textures g this)) eUndefined
                (wholeImage (textures g this)),
              copyImageToBuffer (GetBacking (textures g this)) eTransferSrcOptimal b
                (wholeImageCopy (textures g this))]"
    by (simp_all add: CopyFromStagingBuffer_eq CopyIntoStagingBuffer_eq updateTexture_def)
next
  assume "layout (textures g this) \<noteq> eUndefined"
  then show "snd (CopyFromStagingBuffer this b cb g) = g"
    and "snd (CopyIntoStagingBuffer this b cb g) = g"
    by (simp_all add: CopyFromStagingBuffer_eq CopyIntoStagingBuffer_eq)
qed (rule layout_SynchronizeHost layout_SynchronizeHostWithBuffer layout_SynchronizeGuest
      layout_SynchronizeGuestWithBuffer)+

theorem synchronization_layout_effect_witness:
  "layout (textures stagingUndefinedGPU 0) = eUndefined \<and>
   layout (textures (snd (CopyFromStagingBuffer 0 0 [] stagingUndefinedGPU)) 0) = eTransferDstOptimal \<and>
   length (fst (CopyFromStagingBuffer 0 0 [] stagingUndefinedGPU)) = 2 \<and>
   layout (textures (snd (CopyIntoStagingBuffer 0 0 [] stagingUndefinedGPU)) 0) = eTransferSrcOptimal \<and>
   length (fst (CopyIntoStagingBuffer 0 0 [] stagingUndefinedGPU)) = 2 \<and>
   layout (textures stagingBlockGPU 0) \<noteq> eUndefined \<and>
   snd (CopyFromStagingBuffer 0 0 [] stagingBlockGPU) = stagingBlockGPU \<and>
   snd (CopyIntoStagingBuffer 0 0 [] stagingBlockGPU) = stagingBlockGPU \<and>
   fst (SynchronizeHost exampleEnv 0 stagingUndefinedGPU) = Returned () \<and>
   layout (textures (snd (SynchronizeHost exampleEnv 0 stagingUndefinedGPU)) 0) = eTransferDstOptimal \<and>
   layout (textures (snd (SynchronizeHost exampleEnv 0 stagingBlockGPU)) 0) = eGeneral"
proof -
  have u: "layout (textures stagingUndefinedGPU 0) = eUndefined"
    "tiling (textures stagingUndefinedGPU 0) = eOptimal"
    and b: "layout (textures stagingBlockGPU 0) \<noteq> eUndefined"
    "layout (textures stagingBlockGPU 0) = eGeneral"
    by (simp_all add: stagingUndefinedGPU_def stagingBlockGPU_def example_defs)
  have returned: "fst (SynchronizeHost exampleEnv 0 stagingUndefinedGPU) = Returned ()"
    by (simp add: stagingUndefinedGPU_def example_defs SynchronizeHost_def SynchronizeHostImpl_def
        WaitOnBacking_def GetBacking_def selectHostBuffer_def AllocateStagingBuffer_def
        copyGuestToBuffer_def readHost_def guestToLinear_def writeHost_def Submit_def
        split: prod.splits)
  note at_undefined = synchronization_layout_effect [of stagingUndefinedGPU 0 0 "[]" exampleEnv 7]
  note at_general = synchronization_layout_effect [of stagingBlockGPU 0 0 "[]" exampleEnv 7]
  from at_undefined u returned
  have "layout (textures (snd (CopyFromStagingBuffer 0 0 [] stagingUndefinedGPU)) 0) = eTransferDstOptimal"
    and "length (fst (CopyFromStagingBuffer 0 0 [] stagingUndefinedGPU)) = 2"
    and "layout (textures (snd (CopyIntoStagingBuffer 0 0 [] stagingUndefinedGPU)) 0) = eTransferSrcOptimal"
    and "length (fst (CopyIntoStagingBuffer 0 0 [] stagingUndefinedGPU)) = 2"
    and "layout (textures (snd (SynchronizeHost exampleEnv 0 stagingUndefinedGPU)) 0) = eTransferDstOptimal"
    by simp_all
  moreover from at_general b
  have "snd (CopyFromStagingBuffer 0 0 [] stagingBlockGPU) = stagingBlockGPU"
    and "snd (CopyIntoStagingBuffer 0 0 [] stagingBlockGPU) = stagingBlockGPU"
    and "layout (textures (snd (SynchronizeHost exampleEnv 0 stagingBlockGPU)) 0) = eGeneral"
    by simp_all
  ultimately show ?thesis using u(1) b(1) returned by blast
qed


section \<open>Guest to host\<close>

text \<open>\<^verbatim>\<open>SynchronizeHostImpl\<close> on its two paths, when the checks pass and the copy is in range.\<close>

lemma SynchronizeHostImpl_staging:
  assumes "guest (textures g this) = Some gt"
    and "guestDimensions gt = dimensions (textures g this)"
    and "mappings gt = [pointer]"
    and "GetBacking (textures g this) \<noteq> None"
    and "tiling (textures g this) = eOptimal \<or> \<not> holdsMemoryImage (backing (textures g this))"
    and "guestToLinear env gt pointer
           (replicate (GetSize env (format (textures g this)) (dimensions (textures g this))) 0)
           (GetSize env (format (textures g this)) (dimensions (textures g this))) = Some converted"
  shows "SynchronizeHostImpl env this pCycle g =
    (Returned (Some (length (stagingBuffers g))),
     (if cycle (textures g this) \<noteq> pCycle
      then WaitOnFence this (g\<lparr>stagingBuffers := stagingBuffers g @ [converted]\<rparr>)
      else g\<lparr>stagingBuffers := stagingBuffers g @ [converted]\<rparr>))"
  using assms
  by (simp add: SynchronizeHostImpl_def WaitOnBacking_def selectHostBuffer_def
      AllocateStagingBuffer_def copyGuestToBuffer_def readHost_def writeHost_def Let_def)

lemma SynchronizeHostImpl_direct:
  assumes "guest (textures g this) = Some gt"
    and "guestDimensions gt = dimensions (textures g this)"
    and "mappings gt = [pointer]"
    and "tiling (textures g this) = eLinear"
    and "backing (textures g this) = CpuMapped h d"
    and "guestToLinear env gt pointer d
           (GetSize env (format (textures g this)) (dimensions (textures g this))) = Some converted"
  shows "SynchronizeHostImpl env this pCycle g =
    (Returned None,
     updateTexture this (\<lambda>t. t\<lparr>backing := CpuMapped h converted\<rparr>)
       (if cycle (textures g this) \<noteq> pCycle then WaitOnFence this g else g))"
  using assms
  by (simp add: SynchronizeHostImpl_def WaitOnBacking_def selectHostBuffer_def GetBacking_def
      holdsMemoryImage_def copyGuestToBuffer_def readHost_def writeHost_def Let_def
      textures_WaitOnFence updateTexture_def)



text \<open>
  Claim C7. Take a \<^verbatim>\<open>SynchronizeHost()\<close> call whose preconditions hold: a guest
  descriptor with the dimensions of the host image and exactly one mapping, and a
  backing that is present; the byte copy of the \<open>Linear\<close> tile mode stays inside its
  buffers. On the staging path (optimal tiling, or a backing that is not mapped) the
  call returns, one unit is submitted that holds exactly one copy-buffer-to-image of
  the new staging buffer, between the barriers the layout asks for; the staging buffer
  and the texture are attached to the fence cycle of that submission and that cycle is
  the texture's pending cycle. On the direct path (linear tiling, mapped backing) the
  call returns with the converted guest bytes in the mapped image, nothing is submitted
  or attached, and no cycle is recorded as pending: the pending reference is empty, the
  cycle it named before, if any, having been waited on.
\<close>

theorem SynchronizeHost_paths:
  assumes "guest (textures g this) = Some gt"
    and "guestDimensions gt = dimensions (textures g this)"
    and "mappings gt = [pointer]"
    and "GetBacking (textures g this) \<noteq> None"
    and "sz = GetSize env (format (textures g this)) (dimensions (textures g this))"
  shows "((tiling (textures g this) = eOptimal \<or> \<not> holdsMemoryImage (backing (textures g this))) \<and>
          (tileMode gt = Linear \<longrightarrow> sz \<le> length pointer) \<longrightarrow>
            fst (SynchronizeHost env this g) = Returned () \<and>
            stagingBuffers (snd (SynchronizeHost env this g)) =
              stagingBuffers g @ [the (guestToLinear env gt pointer (replicate sz 0) sz)] \<and>
            submitted (snd (SynchronizeHost env this g)) =
              submitted g @
                [(if layout (textures g this) \<noteq> eTransferDstOptimal
                  then [toTransferDst (GetBacking (textures g this)) (layout (textures g this))
                          (wholeImage (textures g this))]
                  else []) @
                 [copyBufferToImage (length (stagingBuffers g)) (GetBacking (textures g this))
                    eTransferDstOptimal (wholeImageCopy (textures g this))] @
                 (if layout (textures g this) \<noteq> eTransferDstOptimal \<and>
                     layout (textures g this) \<noteq> eUndefined
                  then [fromTransferDst (GetBacking (textures g this)) (layout (textures g this))
                          (wholeImage (textures g this))]
                  else [])] \<and>
            attachedObjects (snd (SynchronizeHost env this g)) (length (submitted g)) =
              attachedObjects g (length (submitted g)) @
                [AttachedStagingBuffer (length (stagingBuffers g)), AttachedTexture this] \<and>
            cycle (textures (snd (SynchronizeHost env this g)) this) = Some (length (submitted g))) \<and>
         (\<forall>h d. tiling (textures g this) = eLinear \<and> backing (textures g this) = CpuMapped h d \<and>
                (tileMode gt = Linear \<longrightarrow> sz \<le> length pointer \<and> sz \<le> length d) \<longrightarrow>
            fst (SynchronizeHost env this g) = Returned () \<and>
            submitted (snd (SynchronizeHost env this g)) = submitted g \<and>
            attachedObjects (snd (SynchronizeHost env this g)) = attachedObjects g \<and>
            stagingBuffers (snd (SynchronizeHost env this g)) = stagingBuffers g \<and>
            backing (textures (snd (SynchronizeHost env this g)) this) =
              CpuMapped h (the (guestToLinear env gt pointer d sz)) \<and>
            cycle (textures (snd (SynchronizeHost env this g)) this) = None)"
proof (intro conjI impI allI)
  assume path: "(tiling (textures g this) = eOptimal \<or> \<not> holdsMemoryImage (backing (textures g this))) \<and>
          (tileMode gt = Linear \<longrightarrow> sz \<le> length pointer)"
  then obtain converted where conv: "guestToLinear env gt pointer (replicate sz 0) sz = Some converted"
    by (cases "tileMode gt") (simp_all add: guestToLinear_def memcpy_def)
  let ?g1 = "g\<lparr>stagingBuffers := stagingBuffers g @ [converted]\<rparr>"
  let ?g2 = "WaitOnFence this ?g1"
  have impl: "SynchronizeHostImpl env this None g = (Returned (Some (length (stagingBuffers g))), ?g2)"
    using SynchronizeHostImpl_staging [OF assms(1-4), of env converted None] path conv assms(5)
      WaitOnFence_unless_None [of ?g1 this]
    by simp
  have t2: "textures ?g2 = (textures g)(this := (textures g this)\<lparr>cycle := None\<rparr>)"
    by (simp add: textures_WaitOnFence)
  have sh: "SynchronizeHost env this g =
    (case Submit (CopyFromStagingBuffer this (length (stagingBuffers g))) ?g2 of
       (lCycle, g') \<Rightarrow>
         (Returned (),
          updateTexture this (\<lambda>t. t\<lparr>cycle := Some lCycle\<rparr>)
            (AttachObjects lCycle [AttachedStagingBuffer (length (stagingBuffers g)), AttachedTexture this] g')))"
    by (simp add: SynchronizeHost_def impl)
  show "fst (SynchronizeHost env this g) = Returned ()"
    by (simp add: sh split: prod.splits)
  show "stagingBuffers (snd (SynchronizeHost env this g)) =
          stagingBuffers g @ [the (guestToLinear env gt pointer (replicate sz 0) sz)]"
    by (simp add: sh conv Submit_def CopyFromStagingBuffer_eq updateTexture_def AttachObjects_def)
  show "submitted (snd (SynchronizeHost env this g)) =
              submitted g @
                [(if layout (textures g this) \<noteq> eTransferDstOptimal
                  then [toTransferDst (GetBacking (textures g this)) (layout (textures g this))
                          (wholeImage (textures g this))]
                  else []) @
                 [copyBufferToImage (length (stagingBuffers g)) (GetBacking (textures g this))
                    eTransferDstOptimal (wholeImageCopy (textures g this))] @
                 (if layout (textures g this) \<noteq> eTransferDstOptimal \<and>
                     layout (textures g this) \<noteq> eUndefined
                  then [fromTransferDst (GetBacking (textures g this)) (layout (textures g this))
                          (wholeImage (textures g this))]
                  else [])]"
    by (simp add: sh Submit_def CopyFromStagingBuffer_eq updateTexture_def AttachObjects_def t2
        GetBacking_def wholeImage_def wholeImageCopy_def)
  show "attachedObjects (snd (SynchronizeHost env this g)) (length (submitted g)) =
              attachedObjects g (length (submitted g)) @
                [AttachedStagingBuffer (length (stagingBuffers g)), AttachedTexture this]"
    by (simp add: sh Submit_def CopyFromStagingBuffer_eq updateTexture_def AttachObjects_def)
  show "cycle (textures (snd (SynchronizeHost env this g)) this) = Some (length (submitted g))"
    by (simp add: sh Submit_def CopyFromStagingBuffer_eq updateTexture_def AttachObjects_def)
next
  fix h d
  assume path: "tiling (textures g this) = eLinear \<and> backing (textures g this) = CpuMapped h d \<and>
                (tileMode gt = Linear \<longrightarrow> sz \<le> length pointer \<and> sz \<le> length d)"
  then obtain converted where conv: "guestToLinear env gt pointer d sz = Some converted"
    by (cases "tileMode gt") (simp_all add: guestToLinear_def memcpy_def)
  have impl: "SynchronizeHostImpl env this None g =
    (Returned None,
     updateTexture this (\<lambda>t. t\<lparr>backing := CpuMapped h converted\<rparr>) (WaitOnFence this g))"
    using SynchronizeHostImpl_direct [OF assms(1-3), of h d env converted None] path conv assms(5)
      WaitOnFence_unless_None [of g this]
    by simp
  have sh: "SynchronizeHost env this g =
    (Returned (),
     updateTexture this (\<lambda>t. t\<lparr>backing := CpuMapped h converted\<rparr>) (WaitOnFence this g))"
    by (simp add: SynchronizeHost_def impl)
  show "fst (SynchronizeHost env this g) = Returned ()"
    and "submitted (snd (SynchronizeHost env this g)) = submitted g"
    and "attachedObjects (snd (SynchronizeHost env this g)) = attachedObjects g"
    and "stagingBuffers (snd (SynchronizeHost env this g)) = stagingBuffers g"
    and "backing (textures (snd (SynchronizeHost env this g)) this) =
              CpuMapped h (the (guestToLinear env gt pointer d sz))"
    and "cycle (textures (snd (SynchronizeHost env this g)) this) = None"
    by (auto simp: sh updateTexture_def conv textures_WaitOnFence)
qed


theorem SynchronizeHost_paths_witness:
  "guest (textures stagingBlockGPU 0) = Some (exampleGuest Block [[3, 4]]) \<and>
   guestDimensions (exampleGuest Block [[3, 4]]) = dimensions (textures stagingBlockGPU 0) \<and>
   mappings (exampleGuest Block [[3, 4]]) = [[3, 4]] \<and>
   GetBacking (textures stagingBlockGPU 0) \<noteq> None \<and>
   tiling (textures stagingBlockGPU 0) = eOptimal \<and>
   fst (SynchronizeHost exampleEnv 0 stagingBlockGPU) = Returned () \<and>
   stagingBuffers (snd (SynchronizeHost exampleEnv 0 stagingBlockGPU)) = [[3, 4]] \<and>
   length (submitted (snd (SynchronizeHost exampleEnv 0 stagingBlockGPU))) = 1 \<and>
   attachedObjects (snd (SynchronizeHost exampleEnv 0 stagingBlockGPU)) 0 =
     [AttachedStagingBuffer 0, AttachedTexture 0] \<and>
   cycle (textures (snd (SynchronizeHost exampleEnv 0 stagingBlockGPU)) 0) = Some 0 \<and>
   guest (textures directLinearGPU 0) = Some (exampleGuest Linear [[3, 4]]) \<and>
   tiling (textures directLinearGPU 0) = eLinear \<and>
   backing (textures directLinearGPU 0) = CpuMapped 1 [1, 2] \<and>
   fst (SynchronizeHost exampleEnv 0 directLinearGPU) = Returned () \<and>
   submitted (snd (SynchronizeHost exampleEnv 0 directLinearGPU)) = [] \<and>
   backing (textures (snd (SynchronizeHost exampleEnv 0 directLinearGPU)) 0) = CpuMapped 1 [3, 4] \<and>
   cycle (textures (snd (SynchronizeHost exampleEnv 0 directLinearGPU)) 0) = None"
proof -
  have s: "guest (textures stagingBlockGPU 0) = Some (exampleGuest Block [[3, 4]])"
    "guestDimensions (exampleGuest Block [[3, 4]]) = dimensions (textures stagingBlockGPU 0)"
    "mappings (exampleGuest Block [[3, 4]]) = [[3, 4]]"
    "GetBacking (textures stagingBlockGPU 0) \<noteq> None"
    "tiling (textures stagingBlockGPU 0) = eOptimal"
    "tileMode (exampleGuest Block [[3, 4]]) = Block"
    "submitted stagingBlockGPU = []" "stagingBuffers stagingBlockGPU = []"
    "attachedObjects stagingBlockGPU 0 = []"
    "layout (textures stagingBlockGPU 0) = eGeneral"
    by (simp_all add: stagingBlockGPU_def example_defs GetBacking_def)
  have d: "guest (textures directLinearGPU 0) = Some (exampleGuest Linear [[3, 4]])"
    "guestDimensions (exampleGuest Linear [[3, 4]]) = dimensions (textures directLinearGPU 0)"
    "mappings (exampleGuest Linear [[3, 4]]) = [[3, 4]]"
    "GetBacking (textures directLinearGPU 0) \<noteq> None"
    "tiling (textures directLinearGPU 0) = eLinear"
    "backing (textures directLinearGPU 0) = CpuMapped 1 [1, 2]"
    "tileMode (exampleGuest Linear [[3, 4]]) = Linear"
    "submitted directLinearGPU = []"
    "GetSize exampleEnv (format (textures directLinearGPU 0)) (dimensions (textures directLinearGPU 0)) = 2"
    by (simp_all add: directLinearGPU_def example_defs GetBacking_def)
  have staged: "guestToLinear exampleEnv (exampleGuest Block [[3, 4]]) [3, 4] (replicate n 0) n = Some [3, 4]"
    for n
    by (simp add: guestToLinear_def example_defs)
  have copied: "guestToLinear exampleEnv (exampleGuest Linear [[3, 4]]) [3, 4] [1, 2] 2 = Some [3, 4]"
    by (simp add: guestToLinear_def example_defs memcpy_def)
  note staging = SynchronizeHost_paths [OF s(1-4) refl, of exampleEnv, THEN conjunct1, rule_format]
  note direct = SynchronizeHost_paths [OF d(1-4) refl, of exampleEnv, THEN conjunct2, rule_format,
      of 1 "[1, 2]"]
  have "fst (SynchronizeHost exampleEnv 0 stagingBlockGPU) = Returned ()"
    and "stagingBuffers (snd (SynchronizeHost exampleEnv 0 stagingBlockGPU)) = [[3, 4]]"
    and "length (submitted (snd (SynchronizeHost exampleEnv 0 stagingBlockGPU))) = 1"
    and "attachedObjects (snd (SynchronizeHost exampleEnv 0 stagingBlockGPU)) 0 =
      [AttachedStagingBuffer 0, AttachedTexture 0]"
    and "cycle (textures (snd (SynchronizeHost exampleEnv 0 stagingBlockGPU)) 0) = Some 0"
    using staging s staged by simp_all
  moreover have "fst (SynchronizeHost exampleEnv 0 directLinearGPU) = Returned ()"
    and "submitted (snd (SynchronizeHost exampleEnv 0 directLinearGPU)) = []"
    and "backing (textures (snd (SynchronizeHost exampleEnv 0 directLinearGPU)) 0) = CpuMapped 1 [3, 4]"
    and "cycle (textures (snd (SynchronizeHost exampleEnv 0 directLinearGPU)) 0) = None"
    using direct d copied by simp_all
  ultimately show ?thesis using s(1-5) d(1,5,6) by blast
qed


section \<open>Host to guest\<close>

text \<open>
  Claim C1 describes what \<^verbatim>\<open>CopyToGuest\<close> is for; its \<open>Linear\<close> branch does the
  opposite. The texture of \<open>directGuestGPU\<close> meets every condition of the claim: a guest
  descriptor with one mapping, tile mode \<open>Linear\<close>, layout general, linear tiling, a
  mapped backing image. The host image holds \<open>[1, 2]\<close> and the guest mapping
  \<open>[3, 4]\<close>. After \<^verbatim>\<open>SynchronizeGuest()\<close> the guest mapping still holds
  \<open>[3, 4]\<close> and the host image has been overwritten with it; no command is submitted.
\<close>

theorem SynchronizeGuest_linear_overwrites_host:
  "fst (SynchronizeGuest exampleEnv 0 directGuestGPU) = Returned () \<and>
   backing (textures directGuestGPU 0) = CpuMapped 1 [1, 2] \<and>
   map_option mappings (guest (textures directGuestGPU 0)) = Some [[3, 4]] \<and>
   map_option mappings (guest (textures (snd (SynchronizeGuest exampleEnv 0 directGuestGPU)) 0)) = Some [[3, 4]] \<and>
   backing (textures (snd (SynchronizeGuest exampleEnv 0 directGuestGPU)) 0) = CpuMapped 1 [3, 4] \<and>
   submitted (snd (SynchronizeGuest exampleEnv 0 directGuestGPU)) = []"
  by (simp add: directGuestGPU_def example_defs SynchronizeGuest_def WaitOnBacking_def GetBacking_def
      WaitOnFence_def holdsMemoryImage_def CopyToGuest_def readHost_def memcpy_def writeHost_def
      updateTexture_def)

lemma CopyToGuest_mapped:
  assumes "guest (textures g this) = Some gt"
    and "mappings gt = m # rest"
    and "backing (textures g this) = CpuMapped h d"
  shows "CopyToGuest env this (MappedImageData this) g =
    (case tileMode gt of
       Block \<Rightarrow> (Returned (), writeGuest this (CopyLinearToBlockLinear env gt d m) g)
     | Pitch \<Rightarrow> (Returned (), writeGuest this (CopyLinearToPitchLinear env gt d m) g)
     | Linear \<Rightarrow>
         (case memcpy d m (GetSize env (format (textures g this)) (dimensions (textures g this))) of
            None \<Rightarrow> (UndefinedBehaviour, g)
          | Some d' \<Rightarrow> (Returned (), writeHost (MappedImageData this) d' g)))"
  using assms by (simp add: CopyToGuest_def readHost_def)

lemma CopyToGuest_mapped_returns:
  assumes "guest (textures g this) = Some gt"
    and "mappings gt = m # rest"
    and "backing (textures g this) = CpuMapped h d"
    and "tileMode gt = Linear \<longrightarrow>
           GetSize env (format (textures g this)) (dimensions (textures g this)) \<le> length d \<and>
           GetSize env (format (textures g this)) (dimensions (textures g this)) \<le> length m"
  shows "fst (CopyToGuest env this (MappedImageData this) g) = Returned ()"
  using assms by (cases "tileMode gt") (simp_all add: CopyToGuest_mapped memcpy_def)

text \<open>
  The same on every texture on the direct path with a \<open>Linear\<close> guest: the guest
  descriptor, and with it the guest bytes, are as before the call, and the first
  \<open>sz\<close> bytes of the mapped host image are those of the guest mapping.
\<close>

lemma SynchronizeGuest_linear_direct:
  assumes "guest (textures g this) = Some gt"
    and "mappings gt = [m]"
    and "tileMode gt = Linear"
    and "layout (textures g this) \<noteq> eUndefined"
    and "tiling (textures g this) = eLinear"
    and "backing (textures g this) = CpuMapped h d"
    and "sz = GetSize env (format (textures g this)) (dimensions (textures g this))"
    and "sz \<le> length d" and "sz \<le> length m"
  shows "fst (SynchronizeGuest env this g) = Returned ()"
    and "guest (textures (snd (SynchronizeGuest env this g)) this) = Some gt"
    and "backing (textures (snd (SynchronizeGuest env this g)) this) = CpuMapped h (take sz m @ drop sz d)"
    and "submitted (snd (SynchronizeGuest env this g)) = submitted g"
proof -
  let ?g1 = "WaitOnFence this g"
  have g1: "guest (textures ?g1 this) = Some gt" "backing (textures ?g1 this) = CpuMapped h d"
    "tiling (textures ?g1 this) = eLinear" "format (textures ?g1 this) = format (textures g this)"
    "dimensions (textures ?g1 this) = dimensions (textures g this)"
    using assms by (simp_all add: textures_WaitOnFence)
  have copy: "CopyToGuest env this (MappedImageData this) ?g1 =
      (Returned (), writeHost (MappedImageData this) (take sz m @ drop sz d) ?g1)"
    using assms(3,7-9) by (simp add: CopyToGuest_mapped [OF g1(1) assms(2) g1(2)] g1 memcpy_def)
  have call: "SynchronizeGuest env this g =
      (Returned (), writeHost (MappedImageData this) (take sz m @ drop sz d) ?g1)"
    using assms(1,2,4,6) g1
    by (simp add: SynchronizeGuest_def WaitOnBacking_def GetBacking_def Let_def holdsMemoryImage_def copy)
  show "fst (SynchronizeGuest env this g) = Returned ()"
    and "guest (textures (snd (SynchronizeGuest env this g)) this) = Some gt"
    and "backing (textures (snd (SynchronizeGuest env this g)) this) = CpuMapped h (take sz m @ drop sz d)"
    and "submitted (snd (SynchronizeGuest env this g)) = submitted g"
    using g1 by (simp_all add: call writeHost_def updateTexture_def)
qed

text \<open>What \<^verbatim>\<open>CopyToGuest\<close> keeps of the texture, for a second run after it.\<close>

lemma CopyToGuest_mapped_keeps:
  assumes "guest (textures g this) = Some gt"
    and "mappings gt = [m]"
    and "backing (textures g this) = CpuMapped h d"
    and "tileMode gt = Linear \<longrightarrow>
           GetSize env (format (textures g this)) (dimensions (textures g this)) \<le> length d \<and>
           GetSize env (format (textures g this)) (dimensions (textures g this)) \<le> length m"
  shows "\<exists>gt' m' d'. guest (textures (snd (CopyToGuest env this (MappedImageData this) g)) this) = Some gt' \<and>
           mappings gt' = [m'] \<and> tileMode gt' = tileMode gt \<and>
           backing (textures (snd (CopyToGuest env this (MappedImageData this) g)) this) = CpuMapped h d' \<and>
           format (textures (snd (CopyToGuest env this (MappedImageData this) g)) this) = format (textures g this) \<and>
           dimensions (textures (snd (CopyToGuest env this (MappedImageData this) g)) this) = dimensions (textures g this) \<and>
           (tileMode gt = Linear \<longrightarrow> length d' = length d \<and> m' = m)"
  using assms
  by (cases "tileMode gt")
    (auto simp: CopyToGuest_mapped memcpy_def writeGuest_def writeHost_def updateTexture_def)


lemma attachedObjects_CopyToGuest [simp]:
  "attachedObjects (snd (CopyToGuest env this p g)) = attachedObjects g"
  by (simp add: CopyToGuest_def writeGuest_def writeHost_def updateTexture_def
      split: option.splits list.splits TileMode.splits hostPointer.splits)

text \<open>
  The direct path of \<^verbatim>\<open>SynchronizeGuestWithBuffer\<close> (linear tiling, mapped backing,
  layout not undefined, one guest mapping, the \<open>Linear\<close> byte copy in range): it returns
  the caller's command buffer as it was, having run \<^verbatim>\<open>CopyToGuest\<close> from the mapped
  image at once; it attaches a \<^verbatim>\<open>TextureBufferCopy\<close> guard without a staging buffer to
  the caller's fence cycle and makes that cycle the pending one. Releasing that guard is
  \<^verbatim>\<open>CopyToGuest\<close> from the mapped image once more, and it returns too.
\<close>

lemma SynchronizeGuestWithBuffer_direct:
  assumes "guest (textures g this) = Some gt"
    and "layout (textures g this) \<noteq> eUndefined"
    and "mappings gt = [m]"
    and "tiling (textures g this) = eLinear"
    and "backing (textures g this) = CpuMapped h d"
    and "tileMode gt = Linear \<longrightarrow>
           GetSize env (format (textures g this)) (dimensions (textures g this)) \<le> length d \<and>
           GetSize env (format (textures g this)) (dimensions (textures g this)) \<le> length m"
  shows "let g1 = (if cycle (textures g this) \<noteq> Some pCycle then WaitOnFence this g else g);
             g2 = snd (CopyToGuest env this (MappedImageData this) g1);
             g3 = snd (SynchronizeGuestWithBuffer env this commandBuffer pCycle g)
         in fst (SynchronizeGuestWithBuffer env this commandBuffer pCycle g) = Returned commandBuffer \<and>
            fst (CopyToGuest env this (MappedImageData this) g1) = Returned () \<and>
            g3 = updateTexture this (\<lambda>t. t\<lparr>cycle := Some pCycle\<rparr>)
                   (AttachObjects pCycle [AttachedTextureBufferCopy this None] g2) \<and>
            attachedObjects g3 pCycle = attachedObjects g pCycle @ [AttachedTextureBufferCopy this None] \<and>
            TextureBufferCopyRelease env this None g3 = CopyToGuest env this (MappedImageData this) g3 \<and>
            fst (TextureBufferCopyRelease env this None g3) = Returned ()"
proof -
  define g1 where "g1 = (if cycle (textures g this) \<noteq> Some pCycle then WaitOnFence this g else g)"
  define g2 where "g2 = snd (CopyToGuest env this (MappedImageData this) g1)"
  define g3 where "g3 = updateTexture this (\<lambda>t. t\<lparr>cycle := Some pCycle\<rparr>)
                   (AttachObjects pCycle [AttachedTextureBufferCopy this None] g2)"
  have g1: "guest (textures g1 this) = Some gt" "backing (textures g1 this) = CpuMapped h d"
    "tiling (textures g1 this) = eLinear" "format (textures g1 this) = format (textures g this)"
    "dimensions (textures g1 this) = dimensions (textures g this)"
    "attachedObjects g1 = attachedObjects g"
    using assms by (simp_all add: g1_def textures_WaitOnFence)
  have sized1: "tileMode gt = Linear \<longrightarrow>
           GetSize env (format (textures g1 this)) (dimensions (textures g1 this)) \<le> length d \<and>
           GetSize env (format (textures g1 this)) (dimensions (textures g1 this)) \<le> length m"
    using assms(6) g1 by simp
  have first: "fst (CopyToGuest env this (MappedImageData this) g1) = Returned ()"
    using CopyToGuest_mapped_returns [OF g1(1) _ g1(2) sized1] assms(3) by simp
  have call: "SynchronizeGuestWithBuffer env this commandBuffer pCycle g = (Returned commandBuffer, g3)"
    using assms g1 first
    by (simp add: SynchronizeGuestWithBuffer_def WaitOnBacking_def GetBacking_def Let_def
        holdsMemoryImage_def andThen_Returned g3_def g2_def flip: g1_def)
  from CopyToGuest_mapped_keeps [OF g1(1) assms(3) g1(2) sized1]
  obtain gt' m' d' where keeps: "guest (textures g2 this) = Some gt'" "mappings gt' = [m']"
    "tileMode gt' = tileMode gt" "backing (textures g2 this) = CpuMapped h d'"
    "format (textures g2 this) = format (textures g1 this)"
    "dimensions (textures g2 this) = dimensions (textures g1 this)"
    "tileMode gt = Linear \<longrightarrow> length d' = length d \<and> m' = m"
    unfolding g2_def by blast
  have g3: "guest (textures g3 this) = Some gt'" "backing (textures g3 this) = CpuMapped h d'"
    "format (textures g3 this) = format (textures g1 this)"
    "dimensions (textures g3 this) = dimensions (textures g1 this)"
    using keeps by (simp_all add: g3_def updateTexture_def AttachObjects_def)
  have sized3: "tileMode gt' = Linear \<longrightarrow>
           GetSize env (format (textures g3 this)) (dimensions (textures g3 this)) \<le> length d' \<and>
           GetSize env (format (textures g3 this)) (dimensions (textures g3 this)) \<le> length m'"
    using sized1 keeps(3,7) g3 by simp
  have release: "TextureBufferCopyRelease env this None g3 = CopyToGuest env this (MappedImageData this) g3"
    by (simp add: TextureBufferCopyRelease_def g3 holdsMemoryImage_def)
  have second: "fst (CopyToGuest env this (MappedImageData this) g3) = Returned ()"
    using CopyToGuest_mapped_returns [OF g3(1) _ g3(2) sized3] keeps(2) by simp
  have attached: "attachedObjects g3 pCycle = attachedObjects g pCycle @ [AttachedTextureBufferCopy this None]"
    by (simp add: g3_def g2_def updateTexture_def AttachObjects_def g1)
  show ?thesis
    using first call attached release second
    by (simp add: Let_def g3_def g2_def flip: g1_def)
qed

lemma SynchronizeGuestWithBuffer_direct_example:
  "guest (textures directBlockGPU 0) = Some (exampleGuest Block [[3, 4]]) \<and>
   layout (textures directBlockGPU 0) \<noteq> eUndefined \<and>
   mappings (exampleGuest Block [[3, 4]]) = [[3, 4]] \<and>
   tiling (textures directBlockGPU 0) = eLinear \<and>
   backing (textures directBlockGPU 0) = CpuMapped 1 [1, 2] \<and>
   fst (SynchronizeGuestWithBuffer exampleEnv 0 [] 7 directBlockGPU) = Returned [] \<and>
   attachedObjects (snd (SynchronizeGuestWithBuffer exampleEnv 0 [] 7 directBlockGPU)) 7 =
     [AttachedTextureBufferCopy 0 None] \<and>
   fst (TextureBufferCopyRelease exampleEnv 0 None
          (snd (SynchronizeGuestWithBuffer exampleEnv 0 [] 7 directBlockGPU))) = Returned ()"
proof -
  have 1: "guest (textures directBlockGPU 0) = Some (exampleGuest Block [[3, 4]])"
    and 2: "layout (textures directBlockGPU 0) \<noteq> eUndefined"
    and 3: "mappings (exampleGuest Block [[3, 4]]) = [[3, 4]]"
    and 4: "tiling (textures directBlockGPU 0) = eLinear"
    and 5: "backing (textures directBlockGPU 0) = CpuMapped 1 [1, 2]"
    and 6: "tileMode (exampleGuest Block [[3, 4]]) = Linear \<longrightarrow>
           GetSize exampleEnv (format (textures directBlockGPU 0)) (dimensions (textures directBlockGPU 0))
             \<le> length [1, 2 :: u8] \<and>
           GetSize exampleEnv (format (textures directBlockGPU 0)) (dimensions (textures directBlockGPU 0))
             \<le> length [3, 4 :: u8]"
    and 7: "attachedObjects directBlockGPU 7 = []"
    by (simp_all add: directBlockGPU_def exampleGPU_def exampleTexture_def exampleGuest_def)
  from SynchronizeGuestWithBuffer_direct [OF 1 2 3 4 5 6, of 7 "[]"]
  have returned: "fst (SynchronizeGuestWithBuffer exampleEnv 0 [] 7 directBlockGPU) = Returned []"
    and attached: "attachedObjects (snd (SynchronizeGuestWithBuffer exampleEnv 0 [] 7 directBlockGPU)) 7 =
      attachedObjects directBlockGPU 7 @ [AttachedTextureBufferCopy 0 None]"
    and released: "fst (TextureBufferCopyRelease exampleEnv 0 None
          (snd (SynchronizeGuestWithBuffer exampleEnv 0 [] 7 directBlockGPU))) = Returned ()"
    unfolding Let_def by blast+
  from attached 7
  have "attachedObjects (snd (SynchronizeGuestWithBuffer exampleEnv 0 [] 7 directBlockGPU)) 7 =
      [AttachedTextureBufferCopy 0 None]"
    by simp
  with 1 2 3 4 5 returned released show ?thesis
    by blast
qed



text \<open>
  With a \<open>Block\<close> or \<open>Pitch\<close> guest the guest mapping is written twice on this path:
  by the call, with the conversion of the mapped image into the mapping, and by the
  release of the guard, with the conversion of the same mapped image into the mapping
  the call has left.
\<close>

lemma SynchronizeGuestWithBuffer_direct_tiled:
  assumes "guest (textures g this) = Some gt"
    and "layout (textures g this) \<noteq> eUndefined"
    and "mappings gt = [m]"
    and "tiling (textures g this) = eLinear"
    and "backing (textures g this) = CpuMapped h d"
    and "tileMode gt \<noteq> Linear"
    and "convert = (if tileMode gt = Block then CopyLinearToBlockLinear env else CopyLinearToPitchLinear env)"
    and "g3 = snd (SynchronizeGuestWithBuffer env this commandBuffer pCycle g)"
    and "g4 = snd (TextureBufferCopyRelease env this None g3)"
  shows "fst (SynchronizeGuestWithBuffer env this commandBuffer pCycle g) = Returned commandBuffer"
    and "guest (textures g3 this) = Some (gt\<lparr>mappings := [convert gt d m]\<rparr>)"
    and "backing (textures g3 this) = CpuMapped h d"
    and "fst (TextureBufferCopyRelease env this None g3) = Returned ()"
    and "guest (textures g4 this) =
           Some (gt\<lparr>mappings := [convert (gt\<lparr>mappings := [convert gt d m]\<rparr>) d (convert gt d m)]\<rparr>)"
    and "backing (textures g4 this) = CpuMapped h d"
proof -
  define g1 where "g1 = (if cycle (textures g this) \<noteq> Some pCycle then WaitOnFence this g else g)"
  have g1: "guest (textures g1 this) = Some gt" "backing (textures g1 this) = CpuMapped h d"
    "tiling (textures g1 this) = eLinear"
    using assms(1,4,5) by (simp_all add: g1_def textures_WaitOnFence)
  have copy: "CopyToGuest env this (MappedImageData this) g1 =
      (Returned (), writeGuest this (convert gt d m) g1)"
    using assms(6,7) by (cases "tileMode gt") (simp_all add: CopyToGuest_mapped [OF g1(1) assms(3) g1(2)])
  have call: "SynchronizeGuestWithBuffer env this commandBuffer pCycle g =
      (Returned commandBuffer,
       updateTexture this (\<lambda>t. t\<lparr>cycle := Some pCycle\<rparr>)
         (AttachObjects pCycle [AttachedTextureBufferCopy this None]
            (writeGuest this (convert gt d m) g1)))"
    using assms(1-5) g1
    by (simp add: SynchronizeGuestWithBuffer_def WaitOnBacking_def GetBacking_def Let_def
        holdsMemoryImage_def copy flip: g1_def)
  show returned: "fst (SynchronizeGuestWithBuffer env this commandBuffer pCycle g) = Returned commandBuffer"
    by (simp add: call)
  show guest3: "guest (textures g3 this) = Some (gt\<lparr>mappings := [convert gt d m]\<rparr>)"
    using g1(1) assms(3)
    by (simp add: assms(8) call updateTexture_def AttachObjects_def writeGuest_def)
  show backing3: "backing (textures g3 this) = CpuMapped h d"
    using g1(2) by (simp add: assms(8) call updateTexture_def AttachObjects_def writeGuest_def)
  have mode3: "tileMode (gt\<lparr>mappings := [convert gt d m]\<rparr>) \<noteq> Linear"
    "convert = (if tileMode (gt\<lparr>mappings := [convert gt d m]\<rparr>) = Block
                then CopyLinearToBlockLinear env else CopyLinearToPitchLinear env)"
    using assms(6,7) by simp_all
  have release: "TextureBufferCopyRelease env this None g3 =
      (Returned (),
       writeGuest this (convert (gt\<lparr>mappings := [convert gt d m]\<rparr>) d (convert gt d m)) g3)"
    using mode3
    by (cases "tileMode gt")
      (simp_all add: TextureBufferCopyRelease_def backing3 holdsMemoryImage_def
        CopyToGuest_mapped [OF guest3 _ backing3, of "convert gt d m" "[]"])
  show "fst (TextureBufferCopyRelease env this None g3) = Returned ()"
    by (simp add: release)
  show "guest (textures g4 this) =
           Some (gt\<lparr>mappings := [convert (gt\<lparr>mappings := [convert gt d m]\<rparr>) d (convert gt d m)]\<rparr>)"
    using guest3 by (simp add: assms(9) release writeGuest_def updateTexture_def)
  show "backing (textures g4 this) = CpuMapped h d"
    using backing3 by (simp add: assms(9) release writeGuest_def updateTexture_def)
qed

text \<open>
  Claim C8 says that on the direct path the guest write-back happens twice, once in
  \<^verbatim>\<open>SynchronizeGuestWithBuffer\<close> and once when the guard is released. Both runs of
  \<^verbatim>\<open>CopyToGuest\<close> take place, but with a \<open>Linear\<close> guest neither writes the guest:
  the texture of \<open>directLinearGPU\<close> has the host bytes \<open>[1, 2]\<close> and the guest bytes
  \<open>[3, 4]\<close>; after the call, with the guard attached to cycle \<open>7\<close>, the guest mapping
  still holds \<open>[3, 4]\<close> and the host image has been overwritten with it, and the
  release of the guard leaves both as they are.
\<close>

theorem SynchronizeGuestWithBuffer_linear_never_writes_guest:
  "map_option mappings (guest (textures directLinearGPU 0)) = Some [[3, 4]] \<and>
   backing (textures directLinearGPU 0) = CpuMapped 1 [1, 2] \<and>
   fst (SynchronizeGuestWithBuffer exampleEnv 0 [] 7 directLinearGPU) = Returned [] \<and>
   attachedObjects (snd (SynchronizeGuestWithBuffer exampleEnv 0 [] 7 directLinearGPU)) 7 =
     [AttachedTextureBufferCopy 0 None] \<and>
   map_option mappings
     (guest (textures (snd (SynchronizeGuestWithBuffer exampleEnv 0 [] 7 directLinearGPU)) 0)) =
     Some [[3, 4]] \<and>
   backing (textures (snd (SynchronizeGuestWithBuffer exampleEnv 0 [] 7 directLinearGPU)) 0) =
     CpuMapped 1 [3, 4] \<and>
   fst (TextureBufferCopyRelease exampleEnv 0 None
          (snd (SynchronizeGuestWithBuffer exampleEnv 0 [] 7 directLinearGPU))) = Returned () \<and>
   map_option mappings
     (guest (textures (snd (TextureBufferCopyRelease exampleEnv 0 None
                              (snd (SynchronizeGuestWithBuffer exampleEnv 0 [] 7 directLinearGPU)))) 0)) =
     Some [[3, 4]] \<and>
   backing (textures (snd (TextureBufferCopyRelease exampleEnv 0 None
                              (snd (SynchronizeGuestWithBuffer exampleEnv 0 [] 7 directLinearGPU)))) 0) =
     CpuMapped 1 [3, 4]"
proof -
  have call: "SynchronizeGuestWithBuffer exampleEnv 0 [] 7 directLinearGPU =
    (Returned [],
     exampleGPU (exampleTexture (CpuMapped 1 [3, 4]) eGeneral
                   (Some (exampleGuest Linear [[3, 4]])) eLinear (Some 7)) exampleOther
       \<lparr>attachedObjects := (\<lambda>c. [])(7 := [AttachedTextureBufferCopy 0 None]), waited := [5]\<rparr>)"
    by (simp add: directLinearGPU_def example_defs SynchronizeGuestWithBuffer_def WaitOnBacking_def
        GetBacking_def WaitOnFence_def Wait_def holdsMemoryImage_def CopyToGuest_def readHost_def
        memcpy_def writeHost_def updateTexture_def AttachObjects_def fun_eq_iff)
  have release: "TextureBufferCopyRelease exampleEnv 0 None
      (exampleGPU (exampleTexture (CpuMapped 1 [3, 4]) eGeneral
                   (Some (exampleGuest Linear [[3, 4]])) eLinear (Some 7)) exampleOther
       \<lparr>attachedObjects := (\<lambda>c. [])(7 := [AttachedTextureBufferCopy 0 None]), waited := [5]\<rparr>) =
    (Returned (),
     exampleGPU (exampleTexture (CpuMapped 1 [3, 4]) eGeneral
                   (Some (exampleGuest Linear [[3, 4]])) eLinear (Some 7)) exampleOther
       \<lparr>attachedObjects := (\<lambda>c. [])(7 := [AttachedTextureBufferCopy 0 None]), waited := [5]\<rparr>)"
    by (simp add: example_defs TextureBufferCopyRelease_def holdsMemoryImage_def CopyToGuest_def
        readHost_def memcpy_def writeHost_def updateTexture_def fun_eq_iff)
  show ?thesis
    unfolding call release snd_conv fst_conv
    by (simp add: directLinearGPU_def example_defs)
qed

section \<open>Image to image\<close>

text \<open>
  The loop records one copy for each level from the level it starts at up to, but not
  including, its bound.
\<close>

lemma copyImageLoop_eq:
  "copyImageLoop s d dims bound l cb =
     cb @ map (\<lambda>k. mipLevelCopy s d dims (l\<lparr>mipLevel := of_nat k\<rparr>)) [unat (mipLevel l) ..< unat bound]"
proof (induction s d dims bound l cb rule: copyImageLoop.induct)
  case (1 s d dims bound l cb)
  show ?case
  proof (cases "mipLevel l < bound")
    case True
    then have below: "unat (mipLevel l) < unat bound"
      by (simp add: word_less_nat_alt)
    moreover have "unat bound < 2 ^ 32"
      using unsigned_less [of bound] by simp
    ultimately have "unat (mipLevel l) + 1 < 2 ^ 32"
      by simp
    then have next_level: "unat (mipLevel l + 1) = Suc (unat (mipLevel l))"
      by (simp add: unat_word_ariths)
    have here: "l\<lparr>mipLevel := of_nat (unat (mipLevel l))\<rparr> = l"
      by simp
    from below have "[unat (mipLevel l) ..< unat bound] =
        unat (mipLevel l) # [Suc (unat (mipLevel l)) ..< unat bound]"
      by (simp add: upt_conv_Cons)
    with True "1.IH" next_level here show ?thesis
      by (subst copyImageLoop.simps) simp
  next
    case False
    then have "unat bound \<le> unat (mipLevel l)"
      by (simp add: word_less_nat_alt)
    with False show ?thesis by (subst copyImageLoop.simps) simp
  qed
qed


lemma CopyFromRecord_eq:
  assumes "layout (textures g source) \<noteq> eUndefined"
  shows "CopyFromRecord this source subresource cb g =
    (cb @ (if layout (textures g source) \<noteq> eTransferSrcOptimal
           then [toTransferSrc eTopOfPipe (GetBacking (textures g source)) (layout (textures g source))
                   subresource]
           else [])
        @ (if layout (textures g this) \<noteq> eTransferDstOptimal
           then [toTransferDst (GetBacking (textures g this)) (layout (textures g this)) subresource]
           else [])
        @ map (\<lambda>k. mipLevelCopy (GetBacking (textures g source)) (GetBacking (textures g this))
                     (dimensions (textures g this))
                     \<lparr>layersAspectMask = aspectMask subresource,
                      mipLevel = of_nat k,
                      layersBaseArrayLayer = baseArrayLayer subresource,
                      layersLayerCount =
                        (if rangeLayerCount subresource = VK_REMAINING_ARRAY_LAYERS
                         then layerCount (textures g this) - baseArrayLayer subresource
                         else rangeLayerCount subresource)\<rparr>)
            [unat (baseMipLevel subresource) ..<
             unat (if levelCount subresource = VK_REMAINING_MIP_LEVELS
                   then mipLevels (textures g this) - baseMipLevel subresource
                   else levelCount subresource)]
        @ (if layout (textures g this) \<noteq> eTransferDstOptimal \<and> layout (textures g this) \<noteq> eUndefined
           then [fromTransferDst (GetBacking (textures g this)) (layout (textures g this)) subresource]
           else [])
        @ (if layout (textures g this) \<noteq> eTransferSrcOptimal
           then [fromTransferSrc (GetBacking (textures g source)) (layout (textures g source)) subresource]
           else []),
     if layout (textures g this) = eUndefined
     then updateTexture this (\<lambda>t. t\<lparr>layout := eTransferDstOptimal\<rparr>) g else g)"
proof (cases "layout (textures g this) = eUndefined")
  case True
  with assms have distinct: "source \<noteq> this"
    by auto
  let ?g = "updateTexture this (\<lambda>t. t\<lparr>layout := eTransferDstOptimal\<rparr>) g"
  have after: "textures ?g source = textures g source"
    "layout (textures ?g this) = eTransferDstOptimal"
    "layerCount (textures ?g this) = layerCount (textures g this)"
    "mipLevels (textures ?g this) = mipLevels (textures g this)"
    "dimensions (textures ?g this) = dimensions (textures g this)"
    using distinct by (simp_all add: updateTexture_def)
  show ?thesis
    unfolding CopyFromRecord_def Let_def
    by (simp add: True after copyImageLoop_eq)
next
  case False
  then show ?thesis
    unfolding CopyFromRecord_def Let_def
    by (simp add: copyImageLoop_eq)
qed


text \<open>
  What \<^verbatim>\<open>CopyFrom\<close> does once both backings are present: it waits on both fences and
  only then checks its preconditions.
\<close>

lemma textures_after_waits:
  "textures (WaitOnFence source (WaitOnFence this g)) a =
     (if a = this \<or> a = source then (textures g a)\<lparr>cycle := None\<rparr> else textures g a)"
  by (simp add: textures_WaitOnFence)

lemma waited_WaitOnFence:
  "waited (WaitOnFence this g) =
     waited g @ (case cycle (textures g this) of Some lCycle \<Rightarrow> [lCycle] | None \<Rightarrow> [])"
  by (simp add: WaitOnFence_def updateTexture_def Wait_def split: option.splits)

lemma waited_after_waits:
  "waited (WaitOnFence source (WaitOnFence this g)) =
     waited g @
       (case cycle (textures g this) of Some lCycle \<Rightarrow> [lCycle] | None \<Rightarrow> []) @
       (if source = this then []
        else (case cycle (textures g source) of Some lCycle \<Rightarrow> [lCycle] | None \<Rightarrow> []))"
  by (simp add: waited_WaitOnFence textures_WaitOnFence)


lemma GetBacking_cycle [simp]: "GetBacking (t\<lparr>cycle := c\<rparr>) = GetBacking t"
  by (simp add: GetBacking_def)

lemma CopyFrom_present:
  assumes "GetBacking (textures g this) \<noteq> None"
    and "GetBacking (textures g source) \<noteq> None"
  shows "CopyFrom this source subresource g =
    (if layout (textures g source) = eUndefined
     then (Threw CopyFromUndefinedLayout, WaitOnFence source (WaitOnFence this g))
     else if dimensions (textures g source) \<noteq> dimensions (textures g this)
     then (Threw CopyFromDifferentDimensions, WaitOnFence source (WaitOnFence this g))
     else if format (textures g source) \<noteq> format (textures g this)
     then (Threw CopyFromDifferentFormat, WaitOnFence source (WaitOnFence this g))
     else
       (case Submit (CopyFromRecord this source subresource) (WaitOnFence source (WaitOnFence this g)) of
          (lCycle, g') \<Rightarrow>
            (Returned (),
             updateTexture this (\<lambda>t. t\<lparr>cycle := Some lCycle\<rparr>)
               (AttachObjects lCycle [AttachedTexture source, AttachedTexture this] g'))))"
proof -
  have first: "WaitOnBacking this g = (Returned False, g)"
    using assms(1) by (simp add: WaitOnBacking_def)
  have "GetBacking (textures (WaitOnFence this g) source) \<noteq> None"
    using assms(2) by (auto simp: textures_WaitOnFence)
  then have second: "WaitOnBacking source (WaitOnFence this g) = (Returned False, WaitOnFence this g)"
    by (simp add: WaitOnBacking_def)
  show ?thesis
    unfolding CopyFrom_def Let_def
    by (simp add: first second textures_after_waits)
qed

text \<open>
  Claim C5, as stated, fails on the pending fence cycles: \<^verbatim>\<open>CopyFrom\<close> calls
  \<^verbatim>\<open>WaitOnFence\<close> on the destination and on the source before it checks anything.
  With a source in undefined layout the call throws, and by then both pending references
  (cycles \<open>5\<close> and \<open>6\<close>) have been waited on and cleared.
\<close>

theorem CopyFrom_precondition_counterexample:
  "GetBacking (textures (copyGPU eGeneral eUndefined) 0) \<noteq> None \<and>
   GetBacking (textures (copyGPU eGeneral eUndefined) 1) \<noteq> None \<and>
   layout (textures (copyGPU eGeneral eUndefined) 1) = eUndefined \<and>
   fst (CopyFrom 0 1 (exampleRange 0 1) (copyGPU eGeneral eUndefined)) = Threw CopyFromUndefinedLayout \<and>
   cycle (textures (copyGPU eGeneral eUndefined) 0) = Some 5 \<and>
   cycle (textures (snd (CopyFrom 0 1 (exampleRange 0 1) (copyGPU eGeneral eUndefined))) 0) = None \<and>
   cycle (textures (copyGPU eGeneral eUndefined) 1) = Some 6 \<and>
   cycle (textures (snd (CopyFrom 0 1 (exampleRange 0 1) (copyGPU eGeneral eUndefined))) 1) = None"
  by (simp add: copyGPU_def example_defs GetBacking_def CopyFrom_present textures_after_waits)

text \<open>
  Claim C5, amended. For every pair of textures whose backings are present, a
  \<^verbatim>\<open>CopyFrom\<close> call whose source layout is undefined, or whose source dimensions or
  format differ from the destination's, throws before any command is recorded or
  submitted: nothing is submitted, attached or allocated, and every field of both
  textures (layout and backing among them) is unchanged except the pending fence cycle
  of each, which has been waited on and cleared: the cycle the destination named, then
  the cycle the source named, are the waits the call adds. No other texture changes.
\<close>

theorem CopyFrom_precondition:
  assumes "GetBacking (textures g this) \<noteq> None"
    and "GetBacking (textures g source) \<noteq> None"
    and "layout (textures g source) = eUndefined \<or>
         dimensions (textures g source) \<noteq> dimensions (textures g this) \<or>
         format (textures g source) \<noteq> format (textures g this)"
  shows "fst (CopyFrom this source subresource g) \<in>
           {Threw CopyFromUndefinedLayout, Threw CopyFromDifferentDimensions,
            Threw CopyFromDifferentFormat} \<and>
         submitted (snd (CopyFrom this source subresource g)) = submitted g \<and>
         attachedObjects (snd (CopyFrom this source subresource g)) = attachedObjects g \<and>
         stagingBuffers (snd (CopyFrom this source subresource g)) = stagingBuffers g \<and>
         textures (snd (CopyFrom this source subresource g)) =
           (\<lambda>a. if a = this \<or> a = source then (textures g a)\<lparr>cycle := None\<rparr> else textures g a) \<and>
         waited (snd (CopyFrom this source subresource g)) =
           waited g @
             (case cycle (textures g this) of Some lCycle \<Rightarrow> [lCycle] | None \<Rightarrow> []) @
             (if source = this then []
              else (case cycle (textures g source) of Some lCycle \<Rightarrow> [lCycle] | None \<Rightarrow> []))"
  using assms(3)
  by (auto simp: CopyFrom_present [OF assms(1,2)] textures_after_waits waited_after_waits)

theorem CopyFrom_precondition_witness:
  "GetBacking (textures (copyGPU eGeneral eUndefined) 0) \<noteq> None \<and>
   GetBacking (textures (copyGPU eGeneral eUndefined) 1) \<noteq> None \<and>
   layout (textures (copyGPU eGeneral eUndefined) 1) = eUndefined \<and>
   submitted (snd (CopyFrom 0 1 (exampleRange 0 1) (copyGPU eGeneral eUndefined))) = [] \<and>
   layout (textures (snd (CopyFrom 0 1 (exampleRange 0 1) (copyGPU eGeneral eUndefined))) 0) = eGeneral \<and>
   backing (textures (snd (CopyFrom 0 1 (exampleRange 0 1) (copyGPU eGeneral eUndefined))) 1) = GpuLocal 2 \<and>
   cycle (textures (snd (CopyFrom 0 1 (exampleRange 0 1) (copyGPU eGeneral eUndefined))) 0) = None \<and>
   cycle (textures (snd (CopyFrom 0 1 (exampleRange 0 1) (copyGPU eGeneral eUndefined))) 1) = None \<and>
   waited (snd (CopyFrom 0 1 (exampleRange 0 1) (copyGPU eGeneral eUndefined))) = [5, 6]"
proof -
  have h: "GetBacking (textures (copyGPU eGeneral eUndefined) 0) \<noteq> None"
    "GetBacking (textures (copyGPU eGeneral eUndefined) 1) \<noteq> None"
    "layout (textures (copyGPU eGeneral eUndefined) 1) = eUndefined"
    and before: "submitted (copyGPU eGeneral eUndefined) = []"
    "layout (textures (copyGPU eGeneral eUndefined) 0) = eGeneral"
    "backing (textures (copyGPU eGeneral eUndefined) 1) = GpuLocal 2"
    "waited (copyGPU eGeneral eUndefined) = []"
    "cycle (textures (copyGPU eGeneral eUndefined) 0) = Some 5"
    "cycle (textures (copyGPU eGeneral eUndefined) (Suc 0)) = Some 6"
    by (simp_all add: copyGPU_def example_defs GetBacking_def)
  from CopyFrom_precondition [OF h(1,2) disjI1, OF h(3), of "exampleRange 0 1"] before
  have "submitted (snd (CopyFrom 0 1 (exampleRange 0 1) (copyGPU eGeneral eUndefined))) = []"
    and "layout (textures (snd (CopyFrom 0 1 (exampleRange 0 1) (copyGPU eGeneral eUndefined))) 0) = eGeneral"
    and "backing (textures (snd (CopyFrom 0 1 (exampleRange 0 1) (copyGPU eGeneral eUndefined))) 1) = GpuLocal 2"
    and "cycle (textures (snd (CopyFrom 0 1 (exampleRange 0 1) (copyGPU eGeneral eUndefined))) 0) = None"
    and "cycle (textures (snd (CopyFrom 0 1 (exampleRange 0 1) (copyGPU eGeneral eUndefined))) 1) = None"
    and "waited (snd (CopyFrom 0 1 (exampleRange 0 1) (copyGPU eGeneral eUndefined))) = [5, 6]"
    by simp_all
  with h show ?thesis by blast
qed

text \<open>A \<^verbatim>\<open>CopyFrom\<close> call whose preconditions hold: the unit it submits and the state it leaves.\<close>

lemma CopyFrom_accepted:
  assumes "GetBacking (textures g this) \<noteq> None"
    and "GetBacking (textures g source) \<noteq> None"
    and "layout (textures g source) \<noteq> eUndefined"
    and "dimensions (textures g source) = dimensions (textures g this)"
    and "format (textures g source) = format (textures g this)"
  shows "fst (CopyFrom this source subresource g) = Returned ()"
    and "submitted (snd (CopyFrom this source subresource g)) =
      submitted g @
        [(if layout (textures g source) \<noteq> eTransferSrcOptimal
           then [toTransferSrc eTopOfPipe (GetBacking (textures g source)) (layout (textures g source))
                   subresource]
           else [])
        @ (if layout (textures g this) \<noteq> eTransferDstOptimal
           then [toTransferDst (GetBacking (textures g this)) (layout (textures g this)) subresource]
           else [])
        @ map (\<lambda>k. mipLevelCopy (GetBacking (textures g source)) (GetBacking (textures g this))
                     (dimensions (textures g this))
                     \<lparr>layersAspectMask = aspectMask subresource,
                      mipLevel = of_nat k,
                      layersBaseArrayLayer = baseArrayLayer subresource,
                      layersLayerCount =
                        (if rangeLayerCount subresource = VK_REMAINING_ARRAY_LAYERS
                         then layerCount (textures g this) - baseArrayLayer subresource
                         else rangeLayerCount subresource)\<rparr>)
            [unat (baseMipLevel subresource) ..<
             unat (if levelCount subresource = VK_REMAINING_MIP_LEVELS
                   then mipLevels (textures g this) - baseMipLevel subresource
                   else levelCount subresource)]
        @ (if layout (textures g this) \<noteq> eTransferDstOptimal \<and> layout (textures g this) \<noteq> eUndefined
           then [fromTransferDst (GetBacking (textures g this)) (layout (textures g this)) subresource]
           else [])
        @ (if layout (textures g this) \<noteq> eTransferSrcOptimal
           then [fromTransferSrc (GetBacking (textures g source)) (layout (textures g source)) subresource]
           else [])]"
    and "layout (textures (snd (CopyFrom this source subresource g)) this) =
      (if layout (textures g this) = eUndefined then eTransferDstOptimal else layout (textures g this))"
    and "layout (textures (snd (CopyFrom this source subresource g)) source) = layout (textures g source)"
    and "attachedObjects (snd (CopyFrom this source subresource g)) (length (submitted g)) =
      attachedObjects g (length (submitted g)) @ [AttachedTexture source, AttachedTexture this]"
    and "cycle (textures (snd (CopyFrom this source subresource g)) this) = Some (length (submitted g))"
proof -
  let ?g1 = "WaitOnFence source (WaitOnFence this g)"
  have waited: "layout (textures ?g1 source) = layout (textures g source)"
    "layout (textures ?g1 this) = layout (textures g this)"
    "GetBacking (textures ?g1 source) = GetBacking (textures g source)"
    "GetBacking (textures ?g1 this) = GetBacking (textures g this)"
    "dimensions (textures ?g1 this) = dimensions (textures g this)"
    "layerCount (textures ?g1 this) = layerCount (textures g this)"
    "mipLevels (textures ?g1 this) = mipLevels (textures g this)"
    "submitted ?g1 = submitted g" "attachedObjects ?g1 = attachedObjects g"
    by (simp_all add: textures_after_waits)
  have defined: "layout (textures ?g1 source) \<noteq> eUndefined"
    using assms(3) waited(1) by simp
  note recorded = CopyFromRecord_eq [OF defined, of this subresource "[]", unfolded waited]
  have call: "CopyFrom this source subresource g =
       (case Submit (CopyFromRecord this source subresource) ?g1 of
          (lCycle, g') \<Rightarrow>
            (Returned (),
             updateTexture this (\<lambda>t. t\<lparr>cycle := Some lCycle\<rparr>)
               (AttachObjects lCycle [AttachedTexture source, AttachedTexture this] g')))"
    using assms(3-5) by (simp add: CopyFrom_present [OF assms(1,2)])
  show "fst (CopyFrom this source subresource g) = Returned ()"
    by (simp add: call split: prod.splits)
  show "submitted (snd (CopyFrom this source subresource g)) =
      submitted g @
        [(if layout (textures g source) \<noteq> eTransferSrcOptimal
           then [toTransferSrc eTopOfPipe (GetBacking (textures g source)) (layout (textures g source))
                   subresource]
           else [])
        @ (if layout (textures g this) \<noteq> eTransferDstOptimal
           then [toTransferDst (GetBacking (textures g this)) (layout (textures g this)) subresource]
           else [])
        @ map (\<lambda>k. mipLevelCopy (GetBacking (textures g source)) (GetBacking (textures g this))
                     (dimensions (textures g this))
                     \<lparr>layersAspectMask = aspectMask subresource,
                      mipLevel = of_nat k,
                      layersBaseArrayLayer = baseArrayLayer subresource,
                      layersLayerCount =
                        (if rangeLayerCount subresource = VK_REMAINING_ARRAY_LAYERS
                         then layerCount (textures g this) - baseArrayLayer subresource
                         else rangeLayerCount subresource)\<rparr>)
            [unat (baseMipLevel subresource) ..<
             unat (if levelCount subresource = VK_REMAINING_MIP_LEVELS
                   then mipLevels (textures g this) - baseMipLevel subresource
                   else levelCount subresource)]
        @ (if layout (textures g this) \<noteq> eTransferDstOptimal \<and> layout (textures g this) \<noteq> eUndefined
           then [fromTransferDst (GetBacking (textures g this)) (layout (textures g this)) subresource]
           else [])
        @ (if layout (textures g this) \<noteq> eTransferSrcOptimal
           then [fromTransferSrc (GetBacking (textures g source)) (layout (textures g source)) subresource]
           else [])]"
    by (simp add: call Submit_def recorded updateTexture_def AttachObjects_def waited)
  show "layout (textures (snd (CopyFrom this source subresource g)) this) =
      (if layout (textures g this) = eUndefined then eTransferDstOptimal else layout (textures g this))"
    by (simp add: call Submit_def recorded updateTexture_def AttachObjects_def waited)
  show "layout (textures (snd (CopyFrom this source subresource g)) source) = layout (textures g source)"
    using assms(3)
    by (auto simp: call Submit_def recorded updateTexture_def AttachObjects_def waited)
  show "attachedObjects (snd (CopyFrom this source subresource g)) (length (submitted g)) =
      attachedObjects g (length (submitted g)) @ [AttachedTexture source, AttachedTexture this]"
    by (simp add: call Submit_def recorded updateTexture_def AttachObjects_def waited)
  show "cycle (textures (snd (CopyFrom this source subresource g)) this) = Some (length (submitted g))"
    by (simp add: call Submit_def recorded updateTexture_def AttachObjects_def waited)
qed


text \<open>
  Claim C2, as stated, fails for a destination whose layout is undefined. The code sets
  the cached layout to transfer-destination right after the first barrier, so no barrier
  back is recorded although the original layout (undefined) is not the transfer layout:
  the unit holds the two barriers into the transfer layouts, one copy and the restore of
  the source only.
\<close>

theorem CopyFrom_commands_counterexample:
  "GetBacking (textures (copyGPU eUndefined eGeneral) 0) = Some 1 \<and>
   GetBacking (textures (copyGPU eUndefined eGeneral) 1) = Some 2 \<and>
   layout (textures (copyGPU eUndefined eGeneral) 0) = eUndefined \<and>
   fst (CopyFrom 0 1 (exampleRange 0 1) (copyGPU eUndefined eGeneral)) = Returned () \<and>
   submitted (snd (CopyFrom 0 1 (exampleRange 0 1) (copyGPU eUndefined eGeneral))) =
     [[toTransferSrc eTopOfPipe (Some 2) eGeneral (exampleRange 0 1),
       toTransferDst (Some 1) eUndefined (exampleRange 0 1),
       mipLevelCopy (Some 2) (Some 1) exampleDimensions
         \<lparr>layersAspectMask = 1, mipLevel = 0, layersBaseArrayLayer = 0, layersLayerCount = 1\<rparr>,
       fromTransferSrc (Some 2) eGeneral (exampleRange 0 1)]] \<and>
   layout (textures (snd (CopyFrom 0 1 (exampleRange 0 1) (copyGPU eUndefined eGeneral))) 0) =
     eTransferDstOptimal"
proof -
  have h: "GetBacking (textures (copyGPU eUndefined eGeneral) 0) \<noteq> None"
    "GetBacking (textures (copyGPU eUndefined eGeneral) 1) \<noteq> None"
    "layout (textures (copyGPU eUndefined eGeneral) 1) \<noteq> eUndefined"
    "dimensions (textures (copyGPU eUndefined eGeneral) 1) = dimensions (textures (copyGPU eUndefined eGeneral) 0)"
    "format (textures (copyGPU eUndefined eGeneral) 1) = format (textures (copyGPU eUndefined eGeneral) 0)"
    by (simp_all add: copyGPU_def example_defs GetBacking_def)
  have before: "GetBacking (textures (copyGPU eUndefined eGeneral) 0) = Some 1"
    "GetBacking (textures (copyGPU eUndefined eGeneral) (Suc 0)) = Some 2"
    "layout (textures (copyGPU eUndefined eGeneral) 0) = eUndefined"
    "layout (textures (copyGPU eUndefined eGeneral) (Suc 0)) = eGeneral"
    "submitted (copyGPU eUndefined eGeneral) = []"
    "dimensions (textures (copyGPU eUndefined eGeneral) 0) = exampleDimensions"
    "layerCount (textures (copyGPU eUndefined eGeneral) 0) = 1"
    "mipLevels (textures (copyGPU eUndefined eGeneral) 0) = 1"
    by (simp_all add: copyGPU_def exampleGPU_def exampleTexture_def GetBacking_def)
  have range: "aspectMask (exampleRange 0 1) = 1" "baseMipLevel (exampleRange 0 1) = 0"
    "levelCount (exampleRange 0 1) = 1" "baseArrayLayer (exampleRange 0 1) = 0"
    "rangeLayerCount (exampleRange 0 1) = VK_REMAINING_ARRAY_LAYERS"
    "(1 :: u32) \<noteq> VK_REMAINING_MIP_LEVELS"
    by (simp_all add: exampleRange_def VK_REMAINING_MIP_LEVELS_def)
  show ?thesis
    using CopyFrom_accepted(1-3) [OF h, of "exampleRange 0 1"]
    by (simp add: before range)
qed

text \<open>
  Two more runs. With base mip level \<open>1\<close> and level count \<open>1\<close> the loop compares the
  level \<open>1\<close> with the count \<open>1\<close> and records no copy at all. With a destination in
  transfer-source layout and a source in general layout the source is moved to
  transfer-source and never restored: the last test of the recording function reads the
  destination's \<open>layout\<close>, not the source's.
\<close>

lemma CopyFrom_base_level_example:
  "fst (CopyFrom 0 1 (exampleRange 1 1) (copyGPU eTransferDstOptimal eTransferSrcOptimal)) = Returned () \<and>
   submitted (snd (CopyFrom 0 1 (exampleRange 1 1) (copyGPU eTransferDstOptimal eTransferSrcOptimal))) =
     [[fromTransferSrc (Some 2) eTransferSrcOptimal (exampleRange 1 1)]]"
proof -
  let ?g = "copyGPU eTransferDstOptimal eTransferSrcOptimal"
  have h: "GetBacking (textures ?g 0) \<noteq> None" "GetBacking (textures ?g 1) \<noteq> None"
    "layout (textures ?g 1) \<noteq> eUndefined"
    "dimensions (textures ?g 1) = dimensions (textures ?g 0)"
    "format (textures ?g 1) = format (textures ?g 0)"
    by (simp_all add: copyGPU_def example_defs GetBacking_def)
  have before: "GetBacking (textures ?g (Suc 0)) = Some 2"
    "layout (textures ?g 0) = eTransferDstOptimal" "layout (textures ?g (Suc 0)) = eTransferSrcOptimal"
    "submitted ?g = []"
    by (simp_all add: copyGPU_def exampleGPU_def exampleTexture_def GetBacking_def)
  have range: "baseMipLevel (exampleRange 1 1) = 1" "levelCount (exampleRange 1 1) = 1"
    "(1 :: u32) \<noteq> VK_REMAINING_MIP_LEVELS"
    by (simp_all add: exampleRange_def VK_REMAINING_MIP_LEVELS_def)
  show ?thesis
    using CopyFrom_accepted(1,2) [OF h, of "exampleRange 1 1"]
    by (simp add: before range)
qed

lemma CopyFrom_source_restore_example:
  "fst (CopyFrom 0 1 (exampleRange 0 1) (copyGPU eTransferSrcOptimal eGeneral)) = Returned () \<and>
   submitted (snd (CopyFrom 0 1 (exampleRange 0 1) (copyGPU eTransferSrcOptimal eGeneral))) =
     [[toTransferSrc eTopOfPipe (Some 2) eGeneral (exampleRange 0 1),
       toTransferDst (Some 1) eTransferSrcOptimal (exampleRange 0 1),
       mipLevelCopy (Some 2) (Some 1) exampleDimensions
         \<lparr>layersAspectMask = 1, mipLevel = 0, layersBaseArrayLayer = 0, layersLayerCount = 1\<rparr>,
       fromTransferDst (Some 1) eTransferSrcOptimal (exampleRange 0 1)]]"
proof -
  let ?g = "copyGPU eTransferSrcOptimal eGeneral"
  have h: "GetBacking (textures ?g 0) \<noteq> None" "GetBacking (textures ?g 1) \<noteq> None"
    "layout (textures ?g 1) \<noteq> eUndefined"
    "dimensions (textures ?g 1) = dimensions (textures ?g 0)"
    "format (textures ?g 1) = format (textures ?g 0)"
    by (simp_all add: copyGPU_def example_defs GetBacking_def)
  have before: "GetBacking (textures ?g 0) = Some 1" "GetBacking (textures ?g (Suc 0)) = Some 2"
    "layout (textures ?g 0) = eTransferSrcOptimal" "layout (textures ?g (Suc 0)) = eGeneral"
    "submitted ?g = []" "dimensions (textures ?g 0) = exampleDimensions"
    "layerCount (textures ?g 0) = 1" "mipLevels (textures ?g 0) = 1"
    by (simp_all add: copyGPU_def exampleGPU_def exampleTexture_def GetBacking_def)
  have range: "aspectMask (exampleRange 0 1) = 1" "baseMipLevel (exampleRange 0 1) = 0"
    "levelCount (exampleRange 0 1) = 1" "baseArrayLayer (exampleRange 0 1) = 0"
    "rangeLayerCount (exampleRange 0 1) = VK_REMAINING_ARRAY_LAYERS"
    "(1 :: u32) \<noteq> VK_REMAINING_MIP_LEVELS"
    by (simp_all add: exampleRange_def VK_REMAINING_MIP_LEVELS_def)
  show ?thesis
    using CopyFrom_accepted(1,2) [OF h, of "exampleRange 0 1"]
    by (simp add: before range)
qed


text \<open>
  Claim C2, amended. For every \<^verbatim>\<open>CopyFrom(source, subresource)\<close> whose preconditions hold
  (both backings present, source layout not undefined, equal dimensions and formats)
  the call returns and submits one unit: a barrier of the source into transfer-source
  layout if its layout differs from it; a barrier of the destination into
  transfer-destination layout if its layout differs from it; then image copies between
  the two images and nothing else, which for base mip level \<open>0\<close> are exactly one copy
  for each of the levels \<open>0\<close> to \<open>levelCount - 1\<close> (all \<open>mipLevels\<close> levels for the
  sentinel), each over \<open>layerCount\<close> layers (the layers from the base layer on for the
  sentinel); then the restore of the destination to its original layout, skipped exactly
  when that layout is transfer-destination or undefined; then at most one restore of the
  source to its original layout, which, when the destination is in transfer-source
  layout exactly if the source is, is skipped exactly when the source's original layout
  is transfer-source. An undefined destination is left in transfer-destination layout;
  no other layout field changes. Source and destination are attached to the fence cycle
  of the submission, which becomes the destination's pending cycle.
\<close>

theorem CopyFrom_commands:
  assumes "GetBacking (textures g this) \<noteq> None"
    and "GetBacking (textures g source) \<noteq> None"
    and "layout (textures g source) \<noteq> eUndefined"
    and "dimensions (textures g source) = dimensions (textures g this)"
    and "format (textures g source) = format (textures g this)"
  shows "\<exists>copies restoreSource.
     fst (CopyFrom this source subresource g) = Returned () \<and>
     submitted (snd (CopyFrom this source subresource g)) =
       submitted g @
         [(if layout (textures g source) \<noteq> eTransferSrcOptimal
           then [toTransferSrc eTopOfPipe (GetBacking (textures g source)) (layout (textures g source))
                   subresource]
           else []) @
          (if layout (textures g this) \<noteq> eTransferDstOptimal
           then [toTransferDst (GetBacking (textures g this)) (layout (textures g this)) subresource]
           else []) @
          copies @
          (if layout (textures g this) \<noteq> eTransferDstOptimal \<and> layout (textures g this) \<noteq> eUndefined
           then [fromTransferDst (GetBacking (textures g this)) (layout (textures g this)) subresource]
           else []) @
          restoreSource] \<and>
     (\<forall>c \<in> set copies. \<exists>layers.
         c = mipLevelCopy (GetBacking (textures g source)) (GetBacking (textures g this))
               (dimensions (textures g this)) layers) \<and>
     (baseMipLevel subresource = 0 \<longrightarrow>
        copies =
          map (\<lambda>k. mipLevelCopy (GetBacking (textures g source)) (GetBacking (textures g this))
                     (dimensions (textures g this))
                     \<lparr>layersAspectMask = aspectMask subresource,
                      mipLevel = of_nat k,
                      layersBaseArrayLayer = baseArrayLayer subresource,
                      layersLayerCount =
                        (if rangeLayerCount subresource = VK_REMAINING_ARRAY_LAYERS
                         then layerCount (textures g this) - baseArrayLayer subresource
                         else rangeLayerCount subresource)\<rparr>)
            [0 ..< unat (if levelCount subresource = VK_REMAINING_MIP_LEVELS
                         then mipLevels (textures g this) else levelCount subresource)]) \<and>
     (restoreSource = [] \<or>
      restoreSource =
        [fromTransferSrc (GetBacking (textures g source)) (layout (textures g source)) subresource]) \<and>
     ((layout (textures g this) = eTransferSrcOptimal) = (layout (textures g source) = eTransferSrcOptimal) \<longrightarrow>
        restoreSource =
          (if layout (textures g source) \<noteq> eTransferSrcOptimal
           then [fromTransferSrc (GetBacking (textures g source)) (layout (textures g source)) subresource]
           else [])) \<and>
     layout (textures (snd (CopyFrom this source subresource g)) this) =
       (if layout (textures g this) = eUndefined then eTransferDstOptimal else layout (textures g this)) \<and>
     layout (textures (snd (CopyFrom this source subresource g)) source) = layout (textures g source) \<and>
     attachedObjects (snd (CopyFrom this source subresource g)) (length (submitted g)) =
       attachedObjects g (length (submitted g)) @ [AttachedTexture source, AttachedTexture this] \<and>
     cycle (textures (snd (CopyFrom this source subresource g)) this) = Some (length (submitted g))"
proof -
  let ?copies = "map (\<lambda>k. mipLevelCopy (GetBacking (textures g source)) (GetBacking (textures g this))
                     (dimensions (textures g this))
                     \<lparr>layersAspectMask = aspectMask subresource,
                      mipLevel = of_nat k,
                      layersBaseArrayLayer = baseArrayLayer subresource,
                      layersLayerCount =
                        (if rangeLayerCount subresource = VK_REMAINING_ARRAY_LAYERS
                         then layerCount (textures g this) - baseArrayLayer subresource
                         else rangeLayerCount subresource)\<rparr>)
            [unat (baseMipLevel subresource) ..<
             unat (if levelCount subresource = VK_REMAINING_MIP_LEVELS
                   then mipLevels (textures g this) - baseMipLevel subresource
                   else levelCount subresource)]"
  let ?restore = "if layout (textures g this) \<noteq> eTransferSrcOptimal
           then [fromTransferSrc (GetBacking (textures g source)) (layout (textures g source)) subresource]
           else []"
  note accepted = CopyFrom_accepted [OF assms, of subresource]
  have copies: "\<forall>c \<in> set ?copies. \<exists>layers.
         c = mipLevelCopy (GetBacking (textures g source)) (GetBacking (textures g this))
               (dimensions (textures g this)) layers"
    by auto
  have from_zero: "baseMipLevel subresource = 0 \<longrightarrow>
        ?copies =
          map (\<lambda>k. mipLevelCopy (GetBacking (textures g source)) (GetBacking (textures g this))
                     (dimensions (textures g this))
                     \<lparr>layersAspectMask = aspectMask subresource,
                      mipLevel = of_nat k,
                      layersBaseArrayLayer = baseArrayLayer subresource,
                      layersLayerCount =
                        (if rangeLayerCount subresource = VK_REMAINING_ARRAY_LAYERS
                         then layerCount (textures g this) - baseArrayLayer subresource
                         else rangeLayerCount subresource)\<rparr>)
            [0 ..< unat (if levelCount subresource = VK_REMAINING_MIP_LEVELS
                         then mipLevels (textures g this) else levelCount subresource)]"
    by simp
  have restore: "?restore = [] \<or>
      ?restore =
        [fromTransferSrc (GetBacking (textures g source)) (layout (textures g source)) subresource]"
    by simp
  have agree: "(layout (textures g this) = eTransferSrcOptimal) = (layout (textures g source) = eTransferSrcOptimal) \<longrightarrow>
        ?restore =
          (if layout (textures g source) \<noteq> eTransferSrcOptimal
           then [fromTransferSrc (GetBacking (textures g source)) (layout (textures g source)) subresource]
           else [])"
    by simp
  show ?thesis
    apply (rule exI [where x = ?copies])
    apply (rule exI [where x = ?restore])
    apply (intro conjI)
    apply (rule accepted(1))
    apply (rule accepted(2))
    apply (rule copies)
    apply (rule from_zero)
    apply (rule restore)
    apply (rule agree)
    apply (rule accepted(3))
    apply (rule accepted(4))
    apply (rule accepted(5))
    apply (rule accepted(6))
    done
qed


theorem CopyFrom_commands_witness:
  "GetBacking (textures (copyGPU eGeneral eGeneral) 0) \<noteq> None \<and>
   GetBacking (textures (copyGPU eGeneral eGeneral) 1) \<noteq> None \<and>
   layout (textures (copyGPU eGeneral eGeneral) 1) \<noteq> eUndefined \<and>
   dimensions (textures (copyGPU eGeneral eGeneral) 1) = dimensions (textures (copyGPU eGeneral eGeneral) 0) \<and>
   format (textures (copyGPU eGeneral eGeneral) 1) = format (textures (copyGPU eGeneral eGeneral) 0) \<and>
   fst (CopyFrom 0 1 (exampleRange 0 1) (copyGPU eGeneral eGeneral)) = Returned () \<and>
   submitted (snd (CopyFrom 0 1 (exampleRange 0 1) (copyGPU eGeneral eGeneral))) =
     [[toTransferSrc eTopOfPipe (Some 2) eGeneral (exampleRange 0 1),
       toTransferDst (Some 1) eGeneral (exampleRange 0 1),
       mipLevelCopy (Some 2) (Some 1) exampleDimensions
         \<lparr>layersAspectMask = 1, mipLevel = 0, layersBaseArrayLayer = 0, layersLayerCount = 1\<rparr>,
       fromTransferDst (Some 1) eGeneral (exampleRange 0 1),
       fromTransferSrc (Some 2) eGeneral (exampleRange 0 1)]] \<and>
   layout (textures (snd (CopyFrom 0 1 (exampleRange 0 1) (copyGPU eGeneral eGeneral))) 0) = eGeneral"
proof -
  let ?g = "copyGPU eGeneral eGeneral"
  have h: "GetBacking (textures ?g 0) \<noteq> None" "GetBacking (textures ?g 1) \<noteq> None"
    "layout (textures ?g 1) \<noteq> eUndefined"
    "dimensions (textures ?g 1) = dimensions (textures ?g 0)"
    "format (textures ?g 1) = format (textures ?g 0)"
    by (simp_all add: copyGPU_def example_defs GetBacking_def)
  have before: "GetBacking (textures ?g 0) = Some 1" "GetBacking (textures ?g (Suc 0)) = Some 2"
    "layout (textures ?g 0) = eGeneral" "layout (textures ?g (Suc 0)) = eGeneral"
    "submitted ?g = []" "dimensions (textures ?g 0) = exampleDimensions"
    "layerCount (textures ?g 0) = 1" "mipLevels (textures ?g 0) = 1"
    by (simp_all add: copyGPU_def exampleGPU_def exampleTexture_def GetBacking_def)
  have range: "aspectMask (exampleRange 0 1) = 1" "baseMipLevel (exampleRange 0 1) = 0"
    "levelCount (exampleRange 0 1) = 1" "baseArrayLayer (exampleRange 0 1) = 0"
    "rangeLayerCount (exampleRange 0 1) = VK_REMAINING_ARRAY_LAYERS"
    "(1 :: u32) \<noteq> VK_REMAINING_MIP_LEVELS"
    by (simp_all add: exampleRange_def VK_REMAINING_MIP_LEVELS_def)
  from CopyFrom_commands [OF h, of "exampleRange 0 1"]
  obtain copies restoreSource where
    returned: "fst (CopyFrom 0 1 (exampleRange 0 1) ?g) = Returned ()"
    and unit: "submitted (snd (CopyFrom 0 1 (exampleRange 0 1) ?g)) =
       [[toTransferSrc eTopOfPipe (Some 2) eGeneral (exampleRange 0 1),
         toTransferDst (Some 1) eGeneral (exampleRange 0 1)] @
        copies @
        [fromTransferDst (Some 1) eGeneral (exampleRange 0 1)] @
        restoreSource]"
    and copies: "copies =
       [mipLevelCopy (Some 2) (Some 1) exampleDimensions
         \<lparr>layersAspectMask = 1, mipLevel = 0, layersBaseArrayLayer = 0, layersLayerCount = 1\<rparr>]"
    and restore: "restoreSource = [fromTransferSrc (Some 2) eGeneral (exampleRange 0 1)]"
    and after: "layout (textures (snd (CopyFrom 0 1 (exampleRange 0 1) ?g)) 0) = eGeneral"
    by (auto simp: before range)
  from unit copies restore
  have "submitted (snd (CopyFrom 0 1 (exampleRange 0 1) ?g)) =
     [[toTransferSrc eTopOfPipe (Some 2) eGeneral (exampleRange 0 1),
       toTransferDst (Some 1) eGeneral (exampleRange 0 1),
       mipLevelCopy (Some 2) (Some 1) exampleDimensions
         \<lparr>layersAspectMask = 1, mipLevel = 0, layersBaseArrayLayer = 0, layersLayerCount = 1\<rparr>,
       fromTransferDst (Some 1) eGeneral (exampleRange 0 1),
       fromTransferSrc (Some 2) eGeneral (exampleRange 0 1)]]"
    by simp
  with h returned after show ?thesis by blast
qed


end
